theory Spec2Isabelle
  imports Main "HOL-Library.Word"
begin

section \<open>winkeysafe: key custody on disk and in guarded memory\<close>

text \<open>
  The repository holds several generations of one Go package.  Each generation has one
  entry point that inspects two files (the DPAPI ciphertext and the plaintext key) and
  decides whether to load, migrate or generate the key:
  \<^item> \<open>winkeysafe.go\<close>: \<open>AccessKey() (bool, string)\<close>, \<open>GetKey\<close>, a 32-character key drawn
    with \<open>secureRandomInt\<close>;
  \<^item> src/unnamed/part_003: \<open>New(cipherFile, plainTextFile) (string, error)\<close>, \<open>GetKey\<close>,
    \<open>DestroyKey\<close>, a 24-word key; the package's test file exercises this generation;
  \<^item> src/unnamed/part_002: \<open>Get(cipherFile, plainTextFile) ([]byte, error)\<close>, a
    32-character key.
  A fourth file, src/unnamed/part_004, is a draft of \<open>AccessKey\<close> that returns
  \<open>([]byte, error)\<close> and does not type-check; its \<open>secureRandomInt\<close> is that of
  \<open>winkeysafe.go\<close>.
  The functions keep their Go names.  Where two generations use one name, the function
  of \<open>winkeysafe.go\<close> keeps it and the others are suffixed: \<open>GetKey_words\<close> and
  \<open>generate256BitsKey_words\<close> (part_003), \<open>generate256BitsKey_sized\<close> (part_002).
  Go strings and byte slices are byte sequences: \<open>string\<close> (a list of 8-bit \<open>char\<close>).
\<close>

type_synonym bytes = string
type_synonym path = string
type_synonym file_id = string

subsection \<open>The Go library calls the package relies on\<close>

text \<open>
  \<open>utf8.DecodeRuneInString\<close>: the first rune of a byte string and its width.  The lead
  byte selects the width and the accepted range of the second byte (Go's tables \<open>first\<close>
  and \<open>acceptRanges\<close>); an invalid or truncated sequence is \<open>RuneError\<close> of width 1.
\<close>

definition RuneError :: nat where
  "RuneError = 0xFFFD"

definition leadInfo :: "nat \<Rightarrow> (nat \<times> nat \<times> nat) option" where
  "leadInfo b =
     (if 0xC2 \<le> b \<and> b \<le> 0xDF then Some (2, 0x80, 0xBF)
      else if b = 0xE0 then Some (3, 0xA0, 0xBF)
      else if 0xE1 \<le> b \<and> b \<le> 0xEC then Some (3, 0x80, 0xBF)
      else if b = 0xED then Some (3, 0x80, 0x9F)
      else if b = 0xEE \<or> b = 0xEF then Some (3, 0x80, 0xBF)
      else if b = 0xF0 then Some (4, 0x90, 0xBF)
      else if 0xF1 \<le> b \<and> b \<le> 0xF3 then Some (4, 0x80, 0xBF)
      else if b = 0xF4 then Some (4, 0x80, 0x8F)
      else None)"

fun decodeBytes :: "nat list \<Rightarrow> nat \<times> nat" where
  "decodeBytes [] = (RuneError, 0)"
| "decodeBytes (s0 # t) =
     (case leadInfo s0 of
        None \<Rightarrow> (if s0 < 0x80 then (s0, 1) else (RuneError, 1))
      | Some (sz, lo, hi) \<Rightarrow>
          (if Suc (length t) < sz then (RuneError, 1)
           else (case t of
              [] \<Rightarrow> (RuneError, 1)
            | s1 # t1 \<Rightarrow>
               (if s1 < lo \<or> hi < s1 then (RuneError, 1)
                else if sz \<le> 2 then ((s0 mod 32) * 64 + s1 mod 64, 2)
                else (case t1 of
                   [] \<Rightarrow> (RuneError, 1)
                 | s2 # t2 \<Rightarrow>
                    (if s2 < 0x80 \<or> 0xBF < s2 then (RuneError, 1)
                     else if sz \<le> 3
                       then ((s0 mod 16) * 4096 + (s1 mod 64) * 64 + s2 mod 64, 3)
                     else (case t2 of
                        [] \<Rightarrow> (RuneError, 1)
                      | s3 # t3 \<Rightarrow>
                         (if s3 < 0x80 \<or> 0xBF < s3 then (RuneError, 1)
                          else ((s0 mod 8) * 262144 + (s1 mod 64) * 4096
                                 + (s2 mod 64) * 64 + s3 mod 64, 4)))))))))"

definition DecodeRuneInString :: "string \<Rightarrow> nat \<times> nat" where
  "DecodeRuneInString s = decodeBytes (map of_char s)"

text \<open>\<open>unicode.IsSpace\<close>: the Latin-1 spaces, then the White_Space table.\<close>

definition IsSpace :: "nat \<Rightarrow> bool" where
  "IsSpace r =
     (if r \<le> 0xFF
      then r = 0x09 \<or> r = 0x0A \<or> r = 0x0B \<or> r = 0x0C \<or> r = 0x0D \<or> r = 0x20
           \<or> r = 0x85 \<or> r = 0xA0
      else r = 0x1680 \<or> (0x2000 \<le> r \<and> r \<le> 0x200A) \<or> r = 0x2028 \<or> r = 0x2029
           \<or> r = 0x202F \<or> r = 0x205F \<or> r = 0x3000)"

text \<open>
  \<open>for end, rune := range s\<close>: the runes of a string in order, each with the bytes it
  spans.
\<close>

function runes :: "string \<Rightarrow> (nat \<times> string) list" where
  "runes s =
     (if s = [] then []
      else (fst (DecodeRuneInString s), take (snd (DecodeRuneInString s)) s)
             # runes (drop (snd (DecodeRuneInString s)) s))"
  by pat_completeness auto

lemma decodeBytes_width: "bs \<noteq> [] \<Longrightarrow> 1 \<le> snd (decodeBytes bs) \<and> snd (decodeBytes bs) \<le> length bs"
  by (cases bs) (auto split: option.splits list.splits prod.splits)

lemma DecodeRuneInString_width:
  "s \<noteq> [] \<Longrightarrow> 1 \<le> snd (DecodeRuneInString s) \<and> snd (DecodeRuneInString s) \<le> length s"
  using decodeBytes_width [of "map of_char s"] by (simp add: DecodeRuneInString_def)

termination runes
proof (relation "measure length")
  show "wf (measure length)" by simp
next
  fix s :: string
  assume "s \<noteq> []"
  then show "(drop (snd (DecodeRuneInString s)) s, s) \<in> measure length"
    using DecodeRuneInString_width [of s] by (cases s) auto
qed

declare runes.simps [simp del]

text \<open>
  \<open>strings.FieldsFunc\<close>: the maximal runs of runes that do not satisfy \<open>f\<close>.  Go keeps
  the start offset of the open field (negative when there is none); here the open field
  is carried as the bytes collected so far.
\<close>

fun FieldsFunc_loop :: "(nat \<Rightarrow> bool) \<Rightarrow> (nat \<times> string) list \<Rightarrow> string option \<Rightarrow> string list" where
  "FieldsFunc_loop f [] None = []"
| "FieldsFunc_loop f [] (Some field) = [field]"
| "FieldsFunc_loop f ((rune, bs) # rest) start =
     (if f rune
      then (case start of
              Some field \<Rightarrow> field # FieldsFunc_loop f rest None
            | None \<Rightarrow> FieldsFunc_loop f rest None)
      else (case start of
              None \<Rightarrow> FieldsFunc_loop f rest (Some bs)
            | Some field \<Rightarrow> FieldsFunc_loop f rest (Some (field @ bs))))"

definition FieldsFunc :: "(nat \<Rightarrow> bool) \<Rightarrow> string \<Rightarrow> string list" where
  "FieldsFunc f s = FieldsFunc_loop f (runes s) None"

text \<open>
  \<open>strings.Fields\<close> splits around runs of white space as \<open>unicode.IsSpace\<close> defines it
  (its fast path for all-ASCII input computes the same fields).
\<close>

definition Fields :: "string \<Rightarrow> string list" where
  "Fields s = FieldsFunc IsSpace s"

text \<open>\<open>strings.Join\<close>.\<close>

fun Join :: "string list \<Rightarrow> string \<Rightarrow> string" where
  "Join [] sep = []"
| "Join [a] sep = a"
| "Join (a # b # rest) sep = a @ sep @ Join (b # rest) sep"

subsection \<open>Errors, outcomes and the state the package touches\<close>

text \<open>
  One constructor for each error the package builds, named after the design's taxonomy;
  the argument is the text that the Go format string interpolates (a file name, or the
  plaintext read from the plaintext file where the source passes that):
  \<^item> \<open>KeyNotLoaded\<close>: "key not loaded into memory";
  \<^item> \<open>WordsListNotInitialized\<close>: "wordsList is not initialized. Call New() before AccessKey()";
  \<^item> \<open>ConflictingKeyFiles f\<close>: "... copy f to a safe place and remove it from this server";
  \<^item> \<open>ReadFailed f\<close>, \<open>WriteFailed f\<close>: "failed to read f", "failed to write f", "failed to save f";
  \<^item> \<open>InvalidRepresentation s\<close>: "s must contain exactly 24 valid words from the word list",
    "s must contain a key that is 32 characters";
  \<^item> \<open>PlatformCryptoError s\<close>: "failed to decrypt s", "failed to encrypt s", wrapping
    \<open>DataProtectionFailed\<close>, the error of \<open>encryptData\<close> and \<open>decryptData\<close>;
  \<^item> \<open>PlaintextStillPresent\<close>: "key.txt successfully encrypted to key.dat. Remove key.txt
    from this server and store it safely";
  \<^item> \<open>RandomSourceFailed\<close>: the error of \<open>crypto/rand.Read\<close>.
\<close>

datatype error =
    KeyNotLoaded
  | WordsListNotInitialized
  | ConflictingKeyFiles string
  | ReadFailed string
  | WriteFailed string
  | InvalidRepresentation string
  | PlatformCryptoError string
  | DataProtectionFailed
  | PlaintextStillPresent
  | RandomSourceFailed

text \<open>
  A call returns a value, returns an error, or does not return: a run-time panic (a nil
  pointer dereference, an index out of range) or \<open>log.Fatalf\<close>, which exits the process.
\<close>

datatype crash = NilPointerDereference | IndexOutOfRange | LogFatal

datatype 'a result = Ok 'a | Error error | Crash crash

datatype io_event = Stat path | ReadFile path | WriteFile path bytes

text \<open>
  The state: the files on disk, the package variables \<open>secureKey\<close> (a
  \<open>*memguard.LockedBuffer\<close>, \<open>None\<close> for nil) and \<open>wordsList\<close> (set by the caller; its
  declaration is not among the sources), the file operations attempted so far (oldest
  first) and the lines written with \<open>log\<close>.
\<close>

record world =
  files :: "file_id \<rightharpoonup> bytes"
  secureKey :: "bytes option"
  wordsList :: "string list"
  trace :: "io_event list"
  logged :: "string list"

text \<open>
  What the platform decides:
  \<^item> the two DPAPI calls (\<open>None\<close> when the call reports an error);
  \<^item> \<open>file_of\<close>: the file a path leads to, so that two spellings of one file
    (\<open>key.dat\<close>, \<open>./key.dat\<close>) reach the same content; \<open>files\<close> is keyed by file;
  \<^item> \<open>read_error\<close>, \<open>write_error\<close>: the paths whose read or write reports an error;
  \<^item> \<open>partial_write\<close>: what a failing \<open>os.WriteFile\<close> leaves behind.  It opens the file
    with \<open>O_CREATE|O_TRUNC\<close> and then writes, so it fails either before the file is
    created or truncated (\<open>None\<close>: the disk is as before) or afterwards (\<open>Some n\<close>: the
    file holds the first \<open>n\<close> bytes of the data, at most all of them).
  \<open>os.Stat\<close> is taken as succeeding exactly on the files that are present.
\<close>

record env =
  CryptProtectData :: "bytes \<Rightarrow> bytes option"
  CryptUnprotectData :: "bytes \<Rightarrow> bytes option"
  file_of :: "path \<Rightarrow> file_id"
  read_error :: "path \<Rightarrow> bool"
  write_error :: "path \<Rightarrow> bool"
  partial_write :: "path \<Rightarrow> nat option"

definition fileExists :: "env \<Rightarrow> path \<Rightarrow> world \<Rightarrow> bool \<times> world" where
  "fileExists e filename w =
     (files w (file_of e filename) \<noteq> None, w\<lparr>trace := trace w @ [Stat filename]\<rparr>)"

definition os_ReadFile :: "env \<Rightarrow> path \<Rightarrow> world \<Rightarrow> bytes option \<times> world" where
  "os_ReadFile e name w =
     (if read_error e name then None else files w (file_of e name),
      w\<lparr>trace := trace w @ [ReadFile name]\<rparr>)"

definition os_WriteFile :: "env \<Rightarrow> path \<Rightarrow> bytes \<Rightarrow> world \<Rightarrow> bool \<times> world" where
  "os_WriteFile e name data w =
     (if write_error e name then
        (case partial_write e name of
           None \<Rightarrow> (False, w\<lparr>trace := trace w @ [WriteFile name data]\<rparr>)
         | Some n \<Rightarrow> (False, w\<lparr>files := (files w)(file_of e name \<mapsto> take n data),
                                  trace := trace w @ [WriteFile name data]\<rparr>))
      else (True, w\<lparr>files := (files w)(file_of e name \<mapsto> data),
                      trace := trace w @ [WriteFile name data]\<rparr>))"

text \<open>
  \<open>encryptData\<close> and \<open>decryptData\<close> (\<open>encryptDataUsingDPAPI\<close> and
  \<open>decryptDataUsingDPAPI\<close> in the file with \<open>Get\<close>) are the same in every file but for
  wiping the input buffer afterwards.  The blob handed to DPAPI starts at \<open>&data[0]\<close>,
  which panics on an empty slice, and has \<open>Size: uint32(len(data))\<close>.
\<close>

definition encryptData :: "env \<Rightarrow> bytes \<Rightarrow> bytes result" where
  "encryptData e data =
     (if data = [] then Crash IndexOutOfRange
      else (case CryptProtectData e (take (length data mod 2 ^ 32) data) of
              None \<Rightarrow> Error DataProtectionFailed
            | Some encrypted \<Rightarrow> Ok encrypted))"

definition decryptData :: "env \<Rightarrow> bytes \<Rightarrow> bytes result" where
  "decryptData e data =
     (if data = [] then Crash IndexOutOfRange
      else (case CryptUnprotectData e (take (length data mod 2 ^ 32) data) of
              None \<Rightarrow> Error DataProtectionFailed
            | Some decrypted \<Rightarrow> Ok decrypted))"

text \<open>
  \<open>math/rand.Intn n\<close>: some value below \<open>n\<close>, here the generator's raw draw reduced
  (\<open>n\<close> is positive at every call the package makes).
\<close>

definition rand_Intn :: "nat \<Rightarrow> nat \<Rightarrow> nat" where
  "rand_Intn raw n = raw mod n"

subsection \<open>The 24-word package: \<open>New\<close>, \<open>GetKey\<close>, \<open>DestroyKey\<close> (src/unnamed/part_003)\<close>

text \<open>
  \<open>GetKey\<close> calls \<open>secureKey.Melt()\<close> before it tests \<open>secureKey == nil\<close>; \<open>Melt\<close> on a
  nil \<open>*LockedBuffer\<close> dereferences it.  \<open>Melt\<close> and the deferred \<open>Freeze\<close> change the
  page protection only.
\<close>

definition GetKey_words :: "world \<Rightarrow> string result \<times> world" where
  "GetKey_words w =
     (case secureKey w of
        None \<Rightarrow> (Crash NilPointerDereference, w)
      | Some key \<Rightarrow> (if secureKey w = None then (Error KeyNotLoaded, w) else (Ok key, w)))"

definition DestroyKey :: "world \<Rightarrow> world" where
  "DestroyKey w = (if secureKey w \<noteq> None then w\<lparr>secureKey := None\<rparr> else w)"

fun validateWords_loop :: "(string \<rightharpoonup> unit) \<Rightarrow> string list \<Rightarrow> bool" where
  "validateWords_loop wordSet [] = True"
| "validateWords_loop wordSet (word # rest) =
     (if wordSet word = None then False else validateWords_loop wordSet rest)"

definition validateWords :: "string list \<Rightarrow> string list \<Rightarrow> bool" where
  "validateWords wl words =
     validateWords_loop (foldl (\<lambda>wordSet word. wordSet(word \<mapsto> ())) Map.empty wl) words"

fun formatWords_loop :: "nat \<Rightarrow> string list \<Rightarrow> string" where
  "formatWords_loop i [] = []"
| "formatWords_loop i (word # rest) =
     word @ (if (i + 1) mod 6 = 0 then [CHR 0x0A] else '' '') @ formatWords_loop (i + 1) rest"

definition formatWords :: "string list \<Rightarrow> string" where
  "formatWords words = formatWords_loop 0 words"

definition generate256BitsKey_words :: "string list \<Rightarrow> (nat \<Rightarrow> nat) \<Rightarrow> string list" where
  "generate256BitsKey_words wl rnd =
     (if length wl = 0 then []
      else map (\<lambda>i. wl ! rand_Intn (rnd i) (length wl)) [0..<24])"

definition New :: "env \<Rightarrow> (nat \<Rightarrow> nat) \<Rightarrow> path \<Rightarrow> path \<Rightarrow> world \<Rightarrow> string result \<times> world" where
  "New e rnd cipherFile plainTextFile w =
     (if length (wordsList w) = 0 then (Error WordsListNotInitialized, w)
      else
        let (keyDatExists, w1) = fileExists e cipherFile w;
            (keyTxtExists, w2) = fileExists e plainTextFile w1
        in
        if keyDatExists \<and> keyTxtExists then (Error (ConflictingKeyFiles plainTextFile), w2)
        else if keyDatExists then
          (case os_ReadFile e cipherFile w2 of
             (None, w3) \<Rightarrow> (Error (ReadFailed ''key.dat''), w3)
           | (Some encryptedKey, w3) \<Rightarrow>
               (case decryptData e encryptedKey of
                  Crash c \<Rightarrow> (Crash c, w3)
                | Error err \<Rightarrow> (Error (PlatformCryptoError ''key.dat''), w3)
                | Ok decryptedKey \<Rightarrow> (Ok [], w3\<lparr>secureKey := Some decryptedKey\<rparr>)))
        else if keyTxtExists then
          (case os_ReadFile e plainTextFile w2 of
             (None, w3) \<Rightarrow> (Error (ReadFailed plainTextFile), w3)
           | (Some plainTextKey, w3) \<Rightarrow>
               (let words = Fields plainTextKey in
                if length words \<noteq> 24 \<or> \<not> validateWords (wordsList w) words
                then (Error (InvalidRepresentation plainTextKey), w3)
                else (case encryptData e (Join words '' '') of
                        Crash c \<Rightarrow> (Crash c, w3)
                      | Error err \<Rightarrow> (Error (PlatformCryptoError plainTextKey), w3)
                      | Ok encryptedKey \<Rightarrow>
                          (case os_WriteFile e cipherFile encryptedKey w3 of
                             (False, w4) \<Rightarrow> (Error (WriteFailed cipherFile), w4)
                           | (True, w4) \<Rightarrow> (Ok [], w4)))))
        else
          (let words = generate256BitsKey_words (wordsList w) rnd in
           case os_WriteFile e plainTextFile (Join words '' '') w2 of
             (False, w3) \<Rightarrow> (Error (WriteFailed plainTextFile), w3)
           | (True, w3) \<Rightarrow>
               (case os_ReadFile e plainTextFile w3 of
                  (None, w4) \<Rightarrow> (Error (ReadFailed plainTextFile), w4)
                | (Some plainTextKey, w4) \<Rightarrow>
                    (case encryptData e plainTextKey of
                       Crash c \<Rightarrow> (Crash c, w4)
                     | Error err \<Rightarrow> (Error (PlatformCryptoError ''generated key''), w4)
                     | Ok encryptedKey \<Rightarrow>
                         (case os_WriteFile e cipherFile encryptedKey w4 of
                            (False, w5) \<Rightarrow> (Error (WriteFailed cipherFile), w5)
                          | (True, w5) \<Rightarrow> (Ok (formatWords words), w5))))))"

subsection \<open>The 32-character package with \<open>Get\<close> (src/unnamed/part_002)\<close>

definition characters :: string where
  "characters = ''abcdefghijklmnopqrstuvwxyzABCDEFGHIJKLMNOPQRSTUVWXYZ0123456789!@#$%^&*(){[]};:.,/?`~''"

definition generate256BitsKey_sized :: "nat \<Rightarrow> (nat \<Rightarrow> nat) \<Rightarrow> string" where
  "generate256BitsKey_sized n rnd =
     map (\<lambda>i. let x = 0; y = length characters - 1;
                  randomIndex = rand_Intn (rnd i) (y - x + 1) + x
              in characters ! randomIndex) [0..<n]"

definition Get :: "env \<Rightarrow> (nat \<Rightarrow> nat) \<Rightarrow> path \<Rightarrow> path \<Rightarrow> world \<Rightarrow> bytes result \<times> world" where
  "Get e rnd cipherFile plainTextFile w =
     (let (keyDatExists, w1) = fileExists e cipherFile w;
          (keyTxtExists, w2) = fileExists e plainTextFile w1
      in
      if keyDatExists \<and> keyTxtExists then (Error (ConflictingKeyFiles plainTextFile), w2)
      else if keyDatExists then
        (case os_ReadFile e cipherFile w2 of
           (None, w3) \<Rightarrow> (Error (ReadFailed cipherFile), w3)
         | (Some encryptedKey, w3) \<Rightarrow>
             (case decryptData e encryptedKey of
                Crash c \<Rightarrow> (Crash c, w3)
              | Error err \<Rightarrow> (Error (PlatformCryptoError cipherFile), w3)
              | Ok decryptedKey \<Rightarrow> (Ok decryptedKey, w3)))
      else if keyTxtExists then
        (case os_ReadFile e plainTextFile w2 of
           (None, w3) \<Rightarrow> (Error (ReadFailed plainTextFile), w3)
         | (Some plainTextKey, w3) \<Rightarrow>
             (if length plainTextKey \<noteq> 32 then (Error (InvalidRepresentation plainTextKey), w3)
              else (case encryptData e plainTextKey of
                      Crash c \<Rightarrow> (Crash c, w3)
                    | Error err \<Rightarrow> (Error (PlatformCryptoError plainTextKey), w3)
                    | Ok encryptedKey \<Rightarrow>
                        (case os_WriteFile e cipherFile encryptedKey w3 of
                           (False, w4) \<Rightarrow> (Error (WriteFailed cipherFile), w4)
                         | (True, w4) \<Rightarrow> (Error (ConflictingKeyFiles plainTextFile), w4)))))
      else
        (let plainTextKey = generate256BitsKey_sized 32 rnd in
         case os_WriteFile e plainTextFile plainTextKey w2 of
           (False, w3) \<Rightarrow> (Error (WriteFailed plainTextFile), w3)
         | (True, w3) \<Rightarrow>
             (case encryptData e plainTextKey of
                Crash c \<Rightarrow> (Crash c, w3)
              | Error err \<Rightarrow> (Error (PlatformCryptoError ''generated key''), w3)
              | Ok encryptedKey \<Rightarrow>
                  (case os_WriteFile e cipherFile encryptedKey w3 of
                     (False, w4) \<Rightarrow> (Error (WriteFailed cipherFile), w4)
                   | (True, w4) \<Rightarrow> (Ok plainTextKey, w4)))))"

subsection \<open>The package in \<open>winkeysafe.go\<close>: \<open>AccessKey\<close>, \<open>GetKey\<close>, \<open>secureRandomInt\<close>\<close>

definition GetKey :: "world \<Rightarrow> bytes result \<times> world" where
  "GetKey w =
     (if secureKey w = None then (Error KeyNotLoaded, w)
      else (case secureKey w of
              None \<Rightarrow> (Crash NilPointerDereference, w)
            | Some key \<Rightarrow> (Ok key, w)))"

definition charPool :: string where
  "charPool = ''abcdefghijklmnopqrstuvwxyzABCDEFGHIJKLMNOPQRSTUVWXYZ0123456789!@#$%^&*()-_=+[]{}|;:''
              @ [CHR 0x27] @ '',.<>?/`~''"

text \<open>
  \<open>secureRandomInt\<close> (the same in src/unnamed/part_004).  The first argument is what
  \<open>rand.Read\<close> delivers when it is called: a byte, or \<open>None\<close> for an error.
\<close>

definition secureRandomInt :: "8 word option \<Rightarrow> int \<Rightarrow> int result" where
  "secureRandomInt rand_Read maxv =
     (if maxv \<le> 0 then Ok 0
      else (case rand_Read of
              None \<Rightarrow> Error RandomSourceFailed
            | Some randomByte \<Rightarrow> Ok (uint randomByte mod maxv)))"

text \<open>
  The loop of \<open>generate256BitsKey\<close>; \<open>rd i\<close> is the outcome of the read in round \<open>i\<close>.
  Indexing \<open>charPool\<close> out of range would panic; a failing read ends in \<open>log.Fatalf\<close>.
\<close>

function generate256BitsKey_loop ::
  "(nat \<Rightarrow> 8 word option) \<Rightarrow> nat \<Rightarrow> nat \<Rightarrow> string \<Rightarrow> string result" where
  "generate256BitsKey_loop rd keyLength i key =
     (if i < keyLength then
        (case secureRandomInt (rd i) (int (length charPool)) of
           Error err \<Rightarrow> Crash LogFatal
         | Crash c \<Rightarrow> Crash c
         | Ok randomIndex \<Rightarrow>
             (if randomIndex < 0 \<or> int (length charPool) \<le> randomIndex
              then Crash IndexOutOfRange
              else generate256BitsKey_loop rd keyLength (i + 1)
                     (key[i := charPool ! nat randomIndex])))
      else Ok key)"
  by pat_completeness auto
termination
  by (relation "measure (\<lambda>(rd, keyLength, i, key). keyLength - i)") auto

declare generate256BitsKey_loop.simps [simp del]

definition generate256BitsKey :: "(nat \<Rightarrow> 8 word option) \<Rightarrow> string result" where
  "generate256BitsKey rd = generate256BitsKey_loop rd 32 0 (replicate 32 (CHR 0x00))"

datatype report = NoMessage | DecryptionKeyLoaded | Message error

definition key_notice :: "string list" where
  "key_notice =
     [''Generated keys consists of 32 characters.'',
      ''Please record this key, save key.txt'',
      ''then delete the file from this server.'',
      ''If you loose the key you loose your database!!'',
      ''---------------------------------------------------------'']"

definition AccessKey :: "env \<Rightarrow> (nat \<Rightarrow> 8 word option) \<Rightarrow> world \<Rightarrow> (bool \<times> report) result \<times> world" where
  "AccessKey e rd w =
     (let (keyDatExists, w1) = fileExists e ''key.dat'' w;
          (keyTxtExists, w2) = fileExists e ''key.txt'' w1
      in
      if keyDatExists \<and> keyTxtExists
        then (Ok (False, Message (ConflictingKeyFiles ''key.txt'')), w2)
      else if keyDatExists then
        (case os_ReadFile e ''key.dat'' w2 of
           (None, w3) \<Rightarrow> (Ok (False, Message (ReadFailed ''key.dat'')), w3)
         | (Some encryptedKey, w3) \<Rightarrow>
             (case decryptData e encryptedKey of
                Crash c \<Rightarrow> (Crash c, w3)
              | Error err \<Rightarrow> (Ok (False, Message (PlatformCryptoError ''key.dat'')), w3)
              | Ok decryptedKey \<Rightarrow>
                  (Ok (True, DecryptionKeyLoaded), w3\<lparr>secureKey := Some decryptedKey\<rparr>)))
      else if keyTxtExists then
        (case os_ReadFile e ''key.txt'' w2 of
           (None, w3) \<Rightarrow> (Ok (False, Message (ReadFailed ''key.txt'')), w3)
         | (Some plainTextKey, w3) \<Rightarrow>
             (case encryptData e plainTextKey of
                Crash c \<Rightarrow> (Crash c, w3)
              | Error err \<Rightarrow> (Ok (False, Message (PlatformCryptoError ''key.txt'')), w3)
              | Ok encryptedKey \<Rightarrow>
                  (case os_WriteFile e ''key.dat'' encryptedKey w3 of
                     (False, w4) \<Rightarrow> (Ok (False, Message (WriteFailed ''key.dat'')), w4)
                   | (True, w4) \<Rightarrow> (Ok (False, Message PlaintextStillPresent), w4))))
      else
        (case generate256BitsKey rd of
           Crash c \<Rightarrow> (Crash c, w2)
         | Error err \<Rightarrow> (Error err, w2)
         | Ok words \<Rightarrow>
             (case os_WriteFile e ''key.txt'' words w2 of
                (False, w3) \<Rightarrow> (Ok (False, Message (WriteFailed ''key.txt'')), w3)
              | (True, w3) \<Rightarrow>
                  (case os_ReadFile e ''key.txt'' w3 of
                     (None, w4) \<Rightarrow> (Ok (False, Message (ReadFailed ''key.txt'')), w4)
                   | (Some plainTextKey, w4) \<Rightarrow>
                       (case encryptData e plainTextKey of
                          Crash c \<Rightarrow> (Crash c, w4)
                        | Error err \<Rightarrow>
                            (Ok (False, Message (PlatformCryptoError ''generated key'')), w4)
                        | Ok encryptedKey \<Rightarrow>
                            (case os_WriteFile e ''key.dat'' encryptedKey w4 of
                               (False, w5) \<Rightarrow> (Ok (False, Message (WriteFailed ''key.dat'')), w5)
                             | (True, w5) \<Rightarrow>
                                 (Ok (False, NoMessage),
                                  w5\<lparr>logged := logged w5 @ key_notice
                                         @ [words, ''---------------------------------------------------------'']\<rparr>)))))))"

subsection \<open>Test data\<close>

text \<open>
  \<open>testWordsList\<close> is the word list of the package's test file.  For running the
  functions on concrete inputs: a stand-in platform whose DPAPI calls reverse the bytes,
  whose paths are the files and whose file operations succeed, and a fresh process (no key loaded, nothing traced)
  over a given disk and word list.
\<close>

definition testWordsList :: "string list" where
  "testWordsList =
     [''alpha'', ''bravo'', ''charlie'', ''delta'', ''echo'', ''foxtrot'',
      ''golf'', ''hotel'', ''india'', ''juliet'', ''kilo'', ''lima'',
      ''mike'', ''november'', ''oscar'', ''papa'', ''quebec'', ''romeo'',
      ''sierra'', ''tango'', ''uniform'', ''victor'', ''whiskey'', ''xray'']"

abbreviation fake_platform :: env where
  "fake_platform \<equiv>
     \<lparr>CryptProtectData = (\<lambda>d. Some (rev d)), CryptUnprotectData = (\<lambda>d. Some (rev d)),
      file_of = (\<lambda>f. f), read_error = (\<lambda>f. False), write_error = (\<lambda>f. False),
      partial_write = (\<lambda>f. None)\<rparr>"

abbreviation disk :: "(path \<times> bytes) list \<Rightarrow> string list \<Rightarrow> world" where
  "disk fs wl \<equiv> \<lparr>files = map_of fs, secureKey = None, wordsList = wl, trace = [], logged = []\<rparr>"

section \<open>Properties\<close>

subsection \<open>Splitting and joining words\<close>

lemma leadInfo_Some: "leadInfo b = Some (sz, lo, hi) \<Longrightarrow> 2 \<le> sz \<and> sz \<le> 4 \<and> 0x80 \<le> lo"
  by (auto simp: leadInfo_def split: if_splits)

lemma decodeBytes_append_ascii:
  assumes "bs \<noteq> []" and "a < 0x80"
  shows "decodeBytes (bs @ a # rest) = decodeBytes bs"
proof -
  obtain s0 t where bs: "bs = s0 # t" using assms(1) by (cases bs) auto
  show ?thesis
  proof (cases "leadInfo s0")
    case None
    then show ?thesis by (simp add: bs)
  next
    case (Some info)
    obtain sz lo hi where info: "info = (sz, lo, hi)" by (cases info) auto
    from leadInfo_Some [of s0 sz lo hi] Some info
    have sz: "2 \<le> sz" "sz \<le> 4" and lo: "0x80 \<le> lo" by auto
    show ?thesis
    proof (cases t)
      case Nil
      then show ?thesis using Some info sz lo assms(2) by (simp add: bs)
    next
      case (Cons s1 t1)
      note t = Cons
      show ?thesis
      proof (cases t1)
        case Nil
        then show ?thesis using Some info sz lo assms(2) t by (auto simp: bs)
      next
        case (Cons s2 t2)
        note t1 = Cons
        show ?thesis
        proof (cases t2)
          case Nil
          then show ?thesis using Some info sz lo assms(2) t t1 by (auto simp: bs)
        next
          case (Cons s3 t3)
          then show ?thesis using Some info sz lo assms(2) t t1 by (auto simp: bs)
        qed
      qed
    qed
  qed
qed

lemma DecodeRuneInString_append_ascii:
  "s \<noteq> [] \<Longrightarrow> (of_char c :: nat) < 0x80 \<Longrightarrow>
   DecodeRuneInString (s @ c # rest) = DecodeRuneInString s"
  using decodeBytes_append_ascii [of "map of_char s" "of_char c" "map of_char rest"]
  by (simp add: DecodeRuneInString_def)

lemma DecodeRuneInString_ascii:
  "(of_char c :: nat) < 0x80 \<Longrightarrow> DecodeRuneInString (c # rest) = (of_char c, 1)"
  by (auto simp: DecodeRuneInString_def leadInfo_def)

lemma runes_Nil: "runes [] = []"
  by (simp add: runes.simps)

lemma runes_ascii_Cons:
  "(of_char c :: nat) < 0x80 \<Longrightarrow> runes (c # rest) = (of_char c, [c]) # runes rest"
  by (subst runes.simps) (simp add: DecodeRuneInString_ascii)

lemma runes_append_ascii:
  "(of_char c :: nat) < 0x80 \<Longrightarrow> runes (s @ c # rest) = runes s @ (of_char c, [c]) # runes rest"
proof (induction s rule: runes.induct)
  case (1 s)
  show ?case
  proof (cases "s = []")
    case True
    then show ?thesis using "1.prems" by (simp add: runes_Nil runes_ascii_Cons)
  next
    case False
    let ?k = "snd (DecodeRuneInString s)"
    have k: "1 \<le> ?k" "?k \<le> length s" using DecodeRuneInString_width [OF False] by auto
    have dec: "DecodeRuneInString (s @ c # rest) = DecodeRuneInString s"
      using False "1.prems" by (rule DecodeRuneInString_append_ascii)
    have unfold_app: "runes (s @ c # rest) =
        (fst (DecodeRuneInString s), take ?k s) # runes (drop ?k s @ c # rest)"
      using k False by (subst runes.simps) (simp add: dec)
    have tail: "runes (drop ?k s @ c # rest) = runes (drop ?k s) @ (of_char c, [c]) # runes rest"
      using "1.IH" [OF False "1.prems"] .
    have unfold_s: "runes s = (fst (DecodeRuneInString s), take ?k s) # runes (drop ?k s)"
      using False by (subst runes.simps) simp
    show ?thesis
      by (simp only: unfold_app tail) (simp add: unfold_s [symmetric])
  qed
qed

lemma concat_runes: "concat (map snd (runes s)) = s"
proof (induction s rule: runes.induct)
  case (1 s)
  show ?case
  proof (cases "s = []")
    case True
    then show ?thesis by (simp add: runes_Nil)
  next
    case False
    then show ?thesis using "1.IH" [OF False] by (subst runes.simps) simp
  qed
qed

lemma FieldsFunc_loop_token:
  assumes "\<forall>x\<in>set cs. \<not> f (fst x)" and "f r" and "cs \<noteq> [] \<or> start \<noteq> None"
  shows "FieldsFunc_loop f (cs @ (r, bs) # rest) start =
           ((case start of None \<Rightarrow> [] | Some field \<Rightarrow> field) @ concat (map snd cs))
             # FieldsFunc_loop f rest None"
  using assms
proof (induction cs arbitrary: start)
  case Nil
  then show ?case by (cases start) auto
next
  case (Cons x cs)
  obtain r' bs' where x: "x = (r', bs')" by (cases x) auto
  show ?case using Cons.prems Cons.IH [of "Some ((case start of None \<Rightarrow> [] | Some field \<Rightarrow> field) @ bs')"]
    by (cases start) (auto simp: x)
qed

lemma FieldsFunc_loop_no_separator:
  assumes "\<forall>x\<in>set cs. \<not> f (fst x)" and "cs \<noteq> [] \<or> start \<noteq> None"
  shows "FieldsFunc_loop f cs start =
           [(case start of None \<Rightarrow> [] | Some field \<Rightarrow> field) @ concat (map snd cs)]"
  using assms
proof (induction cs arbitrary: start)
  case Nil
  then show ?case by (cases start) auto
next
  case (Cons x cs)
  obtain r' bs' where x: "x = (r', bs')" by (cases x) auto
  show ?case
    using Cons.prems Cons.IH [of "Some ((case start of None \<Rightarrow> [] | Some field \<Rightarrow> field) @ bs')"]
    by (cases start) (auto simp: x)
qed

lemma Fields_Nil: "Fields [] = []"
  by (simp add: Fields_def FieldsFunc_def runes_Nil)

lemma Fields_token_then_space:
  assumes "word \<noteq> []" and "\<forall>x\<in>set (runes word). \<not> IsSpace (fst x)"
    and "(of_char c :: nat) < 0x80" and "IsSpace (of_char c)"
  shows "Fields (word @ c # rest) = word # Fields rest"
proof -
  have ne: "runes word \<noteq> []" using assms(1) by (subst runes.simps) simp
  show ?thesis
    unfolding Fields_def FieldsFunc_def runes_append_ascii [OF assms(3)]
    using FieldsFunc_loop_token [of "runes word" IsSpace "of_char c" None "[c]" "runes rest"]
      assms(2,4) ne
    by (simp add: concat_runes)
qed

lemma Fields_single_token:
  assumes "word \<noteq> []" and "\<forall>x\<in>set (runes word). \<not> IsSpace (fst x)"
  shows "Fields word = [word]"
proof -
  have ne: "runes word \<noteq> []" using assms(1) by (subst runes.simps) simp
  show ?thesis
    unfolding Fields_def FieldsFunc_def
    using FieldsFunc_loop_no_separator [of "runes word" IsSpace None] assms(2) ne
    by (simp add: concat_runes)
qed

lemma Fields_formatWords_loop:
  "\<forall>word\<in>set words. word \<noteq> [] \<and> (\<forall>x\<in>set (runes word). \<not> IsSpace (fst x)) \<Longrightarrow>
   Fields (formatWords_loop i words) = words"
proof (induction words arbitrary: i)
  case Nil
  then show ?case by (simp add: Fields_Nil)
next
  case (Cons word rest)
  have sp: "(of_char (CHR '' '') :: nat) < 0x80" "IsSpace (of_char (CHR '' ''))"
    by (simp_all add: IsSpace_def)
  have nl: "(of_char (CHR 0x0A) :: nat) < 0x80" "IsSpace (of_char (CHR 0x0A))"
    by (simp_all add: IsSpace_def)
  from Cons.prems have w: "word \<noteq> []" "\<forall>x\<in>set (runes word). \<not> IsSpace (fst x)" by auto
  from Cons.prems have r: "\<forall>word\<in>set rest. word \<noteq> [] \<and> (\<forall>x\<in>set (runes word). \<not> IsSpace (fst x))"
    by auto
  show ?case
    using Fields_token_then_space [OF w sp] Fields_token_then_space [OF w nl] Cons.IH [OF r]
    by simp
qed

lemma Fields_Join:
  "\<forall>word\<in>set words. word \<noteq> [] \<and> (\<forall>x\<in>set (runes word). \<not> IsSpace (fst x)) \<Longrightarrow>
   Fields (Join words '' '') = words"
proof (induction words "'' ''" rule: Join.induct)
  case 1
  then show ?case by (simp add: Fields_Nil)
next
  case (2 a)
  then show ?case by (simp add: Fields_single_token)
next
  case (3 a b rest)
  have sp: "(of_char (CHR '' '') :: nat) < 0x80" "IsSpace (of_char (CHR '' ''))"
    by (simp_all add: IsSpace_def)
  from "3.prems" have w: "a \<noteq> []" "\<forall>x\<in>set (runes a). \<not> IsSpace (fst x)" by auto
  from "3.prems" have r: "\<forall>word\<in>set (b # rest). word \<noteq> [] \<and> (\<forall>x\<in>set (runes word). \<not> IsSpace (fst x))"
    by auto
  show ?case
    using Fields_token_then_space [OF w sp] "3.hyps" [OF r] by simp
qed

lemma length_Join: "(length ws - 1) * length sep \<le> length (Join ws sep)"
  by (induction ws sep rule: Join.induct) auto

lemma Join_nonempty: "2 \<le> length ws \<Longrightarrow> Join ws '' '' \<noteq> []"
  using length_Join [of ws "'' ''"] by auto

lemma formatWords_nonempty: "words \<noteq> [] \<Longrightarrow> formatWords words \<noteq> []"
  by (cases words) (simp_all add: formatWords_def)

lemma dom_foldl_wordSet:
  "dom (foldl (\<lambda>wordSet word. wordSet(word \<mapsto> ())) m wl) = dom m \<union> set wl"
  by (induction wl arbitrary: m) auto

lemma validateWords_loop_iff: "validateWords_loop wordSet words \<longleftrightarrow> set words \<subseteq> dom wordSet"
  by (induction words) auto

lemma validateWords_iff: "validateWords wl words \<longleftrightarrow> set words \<subseteq> set wl"
  by (simp add: validateWords_def validateWords_loop_iff dom_foldl_wordSet)

lemma length_generate256BitsKey_words:
  "wl \<noteq> [] \<Longrightarrow> length (generate256BitsKey_words wl rnd) = 24"
  by (simp add: generate256BitsKey_words_def)

lemma set_generate256BitsKey_words:
  "set (generate256BitsKey_words wl rnd) \<subseteq> set wl"
  by (auto simp: generate256BitsKey_words_def rand_Intn_def)

lemma length_generate256BitsKey_sized: "length (generate256BitsKey_sized n rnd) = n"
  by (simp add: generate256BitsKey_sized_def)

subsection \<open>The platform calls and the generation path\<close>

lemmas io_defs = fileExists_def os_ReadFile_def os_WriteFile_def Let_def

lemma encryptData_no_crash: "data \<noteq> [] \<Longrightarrow> encryptData e data \<noteq> Crash c"
  by (simp add: encryptData_def split: option.splits)

lemma encryptData_reversing:
  "CryptProtectData e = (\<lambda>d. Some (rev d)) \<Longrightarrow> data \<noteq> [] \<Longrightarrow> length data < 2 ^ 32 \<Longrightarrow>
   encryptData e data = Ok (rev data)"
  by (simp add: encryptData_def)

lemma encryptData_fake_platform:
  "data \<noteq> [] \<Longrightarrow> length data < 2 ^ 32 \<Longrightarrow> encryptData fake_platform data = Ok (rev data)"
  by (simp add: encryptData_def)

lemma New_generation_path:
  assumes "wordsList w \<noteq> []" and "files w (file_of e cipherFile) = None" and "files w (file_of e plainTextFile) = None"
  shows "New e rnd cipherFile plainTextFile w =
     (let words = generate256BitsKey_words (wordsList w) rnd;
          w2 = w\<lparr>trace := trace w @ [Stat cipherFile, Stat plainTextFile]\<rparr> in
      case os_WriteFile e plainTextFile (Join words '' '') w2 of
        (False, w3) \<Rightarrow> (Error (WriteFailed plainTextFile), w3)
      | (True, w3) \<Rightarrow>
          (case os_ReadFile e plainTextFile w3 of
             (None, w4) \<Rightarrow> (Error (ReadFailed plainTextFile), w4)
           | (Some plainTextKey, w4) \<Rightarrow>
               (case encryptData e plainTextKey of
                  Crash c \<Rightarrow> (Crash c, w4)
                | Error err \<Rightarrow> (Error (PlatformCryptoError ''generated key''), w4)
                | Ok encryptedKey \<Rightarrow>
                    (case os_WriteFile e cipherFile encryptedKey w4 of
                       (False, w5) \<Rightarrow> (Error (WriteFailed cipherFile), w5)
                     | (True, w5) \<Rightarrow> (Ok (formatWords words), w5)))))"
  using assms by (simp add: New_def fileExists_def Let_def)

lemma Get_generation_path:
  assumes "files w (file_of e cipherFile) = None" and "files w (file_of e plainTextFile) = None"
  shows "Get e rnd cipherFile plainTextFile w =
     (let plainTextKey = generate256BitsKey_sized 32 rnd;
          w2 = w\<lparr>trace := trace w @ [Stat cipherFile, Stat plainTextFile]\<rparr> in
      case os_WriteFile e plainTextFile plainTextKey w2 of
        (False, w3) \<Rightarrow> (Error (WriteFailed plainTextFile), w3)
      | (True, w3) \<Rightarrow>
          (case encryptData e plainTextKey of
             Crash c \<Rightarrow> (Crash c, w3)
           | Error err \<Rightarrow> (Error (PlatformCryptoError ''generated key''), w3)
           | Ok encryptedKey \<Rightarrow>
               (case os_WriteFile e cipherFile encryptedKey w3 of
                  (False, w4) \<Rightarrow> (Error (WriteFailed cipherFile), w4)
                | (True, w4) \<Rightarrow> (Ok plainTextKey, w4))))"
  using assms by (simp add: Get_def fileExists_def Let_def)

lemma New_generation_outcome:
  assumes "wordsList w \<noteq> []" and "files w (file_of e cipherFile) = None"
    and "files w (file_of e plainTextFile) = None"
    and "New e rnd cipherFile plainTextFile w = (r, w')"
  shows "(let words = generate256BitsKey_words (wordsList w) rnd; key = Join words '' '';
              fc = file_of e cipherFile; fp = file_of e plainTextFile in
          (\<not> write_error e plainTextFile \<and> \<not> read_error e plainTextFile
             \<and> encryptData e key = Ok encrypted \<and> \<not> write_error e cipherFile \<longrightarrow>
             r = Ok (formatWords words)
             \<and> files w' = (files w)(fp \<mapsto> key, fc \<mapsto> encrypted)
             \<and> trace w' = trace w @ [Stat cipherFile, Stat plainTextFile,
                   WriteFile plainTextFile key, ReadFile plainTextFile,
                   WriteFile cipherFile encrypted])
        \<and> (\<forall>s. r = Ok s \<longrightarrow>
             s = formatWords words
             \<and> (\<exists>enc. trace w' = trace w @ [Stat cipherFile, Stat plainTextFile,
                     WriteFile plainTextFile key, ReadFile plainTextFile, WriteFile cipherFile enc]
                  \<and> files w' = (files w)(fp \<mapsto> key, fc \<mapsto> enc)))
        \<and> (\<not> write_error e plainTextFile \<and> (\<forall>s. r \<noteq> Ok s) \<longrightarrow>
             files w' fp \<noteq> None
             \<and> (fc \<noteq> fp \<longrightarrow>
                  files w' fp = Some key
                  \<and> (files w' fc = None
                      \<or> (\<exists>n enc. write_error e cipherFile \<and> partial_write e cipherFile = Some n
                            \<and> encryptData e key = Ok enc \<and> files w' fc = Some (take n enc)))))
        \<and> (write_error e plainTextFile \<longrightarrow>
             r = Error (WriteFailed plainTextFile)
             \<and> trace w' = trace w @ [Stat cipherFile, Stat plainTextFile, WriteFile plainTextFile key]
             \<and> files w' = (case partial_write e plainTextFile of
                             None \<Rightarrow> files w
                           | Some n \<Rightarrow> (files w)(fp \<mapsto> take n key)))
        \<and> (\<forall>c. r \<noteq> Crash c))"
proof -
  let ?ws = "generate256BitsKey_words (wordsList w) rnd"
  have ne: "Join ?ws '' '' \<noteq> []"
    using assms(1) by (simp add: Join_nonempty length_generate256BitsKey_words)
  have nc: "\<And>c. encryptData e (Join ?ws '' '') \<noteq> Crash c"
    using ne by (rule encryptData_no_crash)
  show ?thesis
    using assms(2-4) nc unfolding New_generation_path [OF assms(1-3)]
    by (auto simp: io_defs split: if_splits result.splits option.splits)
qed

lemma Get_generation_outcome:
  assumes "files w (file_of e cipherFile) = None" and "files w (file_of e plainTextFile) = None"
    and "Get e rnd cipherFile plainTextFile w = (r, w')"
  shows "(let key = generate256BitsKey_sized 32 rnd;
              fc = file_of e cipherFile; fp = file_of e plainTextFile in
          (\<not> write_error e plainTextFile \<and> encryptData e key = Ok encrypted
             \<and> \<not> write_error e cipherFile \<longrightarrow>
             r = Ok key
             \<and> files w' = (files w)(fp \<mapsto> key, fc \<mapsto> encrypted)
             \<and> trace w' = trace w @ [Stat cipherFile, Stat plainTextFile,
                   WriteFile plainTextFile key, WriteFile cipherFile encrypted])
        \<and> (\<forall>s. r = Ok s \<longrightarrow>
             s = key
             \<and> (\<exists>enc. trace w' = trace w @ [Stat cipherFile, Stat plainTextFile,
                     WriteFile plainTextFile key, WriteFile cipherFile enc]
                  \<and> files w' = (files w)(fp \<mapsto> key, fc \<mapsto> enc)))
        \<and> (\<not> write_error e plainTextFile \<and> (\<forall>s. r \<noteq> Ok s) \<longrightarrow>
             files w' fp \<noteq> None
             \<and> (fc \<noteq> fp \<longrightarrow>
                  files w' fp = Some key
                  \<and> (files w' fc = None
                      \<or> (\<exists>n enc. write_error e cipherFile \<and> partial_write e cipherFile = Some n
                            \<and> encryptData e key = Ok enc \<and> files w' fc = Some (take n enc)))))
        \<and> (write_error e plainTextFile \<longrightarrow>
             r = Error (WriteFailed plainTextFile)
             \<and> trace w' = trace w @ [Stat cipherFile, Stat plainTextFile, WriteFile plainTextFile key]
             \<and> files w' = (case partial_write e plainTextFile of
                             None \<Rightarrow> files w
                           | Some n \<Rightarrow> (files w)(fp \<mapsto> take n key)))
        \<and> (\<forall>c. r \<noteq> Crash c))"
proof -
  have "generate256BitsKey_sized 32 rnd \<noteq> []"
    using length_generate256BitsKey_sized [of 32 rnd] by auto
  then have nc: "\<And>c. encryptData e (generate256BitsKey_sized 32 rnd) \<noteq> Crash c"
    by (rule encryptData_no_crash)
  show ?thesis
    using assms nc unfolding Get_generation_path [OF assms(1,2)]
    by (auto simp: io_defs split: if_splits result.splits option.splits)
qed

subsection \<open>The test data\<close>

lemma testWordsList_nonempty: "testWordsList \<noteq> []"
  by (simp add: testWordsList_def)

lemma length_testWordsList: "length testWordsList = 24"
  by (simp add: testWordsList_def)

lemma testWordsList_tokens:
  "\<forall>word\<in>set testWordsList. word \<noteq> [] \<and> (\<forall>x\<in>set (runes word). \<not> IsSpace (fst x))"
  by (simp add: testWordsList_def runes_ascii_Cons runes_Nil IsSpace_def)

lemma gen_test: "generate256BitsKey_words testWordsList (\<lambda>i. i) = testWordsList"
  by (simp add: generate256BitsKey_words_def testWordsList_def rand_Intn_def upt_conv_Cons)

lemma gen_test2: "generate256BitsKey_words [''new york''] (\<lambda>i. i) = replicate 24 ''new york''"
  by (simp add: generate256BitsKey_words_def rand_Intn_def map_replicate_const)

lemma replicate_24: "replicate 24 x = x # replicate 23 x"
  using replicate_Suc [of 23 x] by simp

lemma test_key_nonempty: "Join testWordsList '' '' \<noteq> []"
  by (simp add: Join_nonempty length_testWordsList)

lemma test_key_length: "length (Join testWordsList '' '') < 2 ^ 32"
  by (simp add: testWordsList_def)

lemma test_key_encrypts:
  "encryptData fake_platform (Join testWordsList '' '') = Ok (rev (Join testWordsList '' ''))"
  using test_key_nonempty test_key_length by (rule encryptData_fake_platform)

lemma Fields_test_key: "Fields (Join testWordsList '' '') = testWordsList"
  using testWordsList_tokens by (rule Fields_Join)

subsection \<open>Materialising the key from the two files\<close>

text \<open>
  Claim C1 (as amended).  \<open>New\<close> returns a non-empty string only when neither file is
  present; when neither is present, the word list is set and the two writes, the
  read-back and the encryption succeed, it returns the formatted words it has just
  generated, and a second call on the resulting disk (two distinct files) is refused
  rather than handed the words again.  \<open>Get\<close> returns bytes only when the plaintext file
  is absent: on the empty disk the generated key, and on the ciphertext-only disk the
  decrypted key.
\<close>

theorem plaintext_only_from_generation:
  "(\<forall>s w'. New e rnd cipherFile plainTextFile w = (Ok s, w') \<and> s \<noteq> [] \<longrightarrow>
        files w (file_of e cipherFile) = None \<and> files w (file_of e plainTextFile) = None)
   \<and> (files w (file_of e cipherFile) = None \<and> files w (file_of e plainTextFile) = None \<and> wordsList w \<noteq> []
        \<and> \<not> write_error e plainTextFile \<and> \<not> read_error e plainTextFile
        \<and> \<not> write_error e cipherFile
        \<and> encryptData e (Join (generate256BitsKey_words (wordsList w) rnd) '' '') = Ok encrypted
      \<longrightarrow> fst (New e rnd cipherFile plainTextFile w)
             = Ok (formatWords (generate256BitsKey_words (wordsList w) rnd))
          \<and> formatWords (generate256BitsKey_words (wordsList w) rnd) \<noteq> []
          \<and> (cipherFile \<noteq> plainTextFile \<longrightarrow>
               fst (New e rnd' cipherFile plainTextFile (snd (New e rnd cipherFile plainTextFile w)))
                 = Error (ConflictingKeyFiles plainTextFile)))
   \<and> (\<forall>s w'. Get e rnd cipherFile plainTextFile w = (Ok s, w') \<longrightarrow> files w (file_of e plainTextFile) = None)"
proof -
  have a: "\<forall>s w'. New e rnd cipherFile plainTextFile w = (Ok s, w') \<and> s \<noteq> [] \<longrightarrow>
        files w (file_of e cipherFile) = None \<and> files w (file_of e plainTextFile) = None"
    by (auto simp: New_def io_defs split: if_splits option.splits result.splits)
  have b: "files w (file_of e cipherFile) = None \<and> files w (file_of e plainTextFile) = None \<and> wordsList w \<noteq> []
        \<and> \<not> write_error e plainTextFile \<and> \<not> read_error e plainTextFile
        \<and> \<not> write_error e cipherFile
        \<and> encryptData e (Join (generate256BitsKey_words (wordsList w) rnd) '' '') = Ok encrypted
      \<longrightarrow> fst (New e rnd cipherFile plainTextFile w)
             = Ok (formatWords (generate256BitsKey_words (wordsList w) rnd))
          \<and> formatWords (generate256BitsKey_words (wordsList w) rnd) \<noteq> []
          \<and> (cipherFile \<noteq> plainTextFile \<longrightarrow>
               fst (New e rnd' cipherFile plainTextFile (snd (New e rnd cipherFile plainTextFile w)))
                 = Error (ConflictingKeyFiles plainTextFile))"
  proof (intro impI, elim conjE)
    assume h: "files w (file_of e cipherFile) = None" "files w (file_of e plainTextFile) = None" "wordsList w \<noteq> []"
      "\<not> write_error e plainTextFile" "\<not> read_error e plainTextFile" "\<not> write_error e cipherFile"
      "encryptData e (Join (generate256BitsKey_words (wordsList w) rnd) '' '') = Ok encrypted"
    let ?ws = "generate256BitsKey_words (wordsList w) rnd"
    have first: "New e rnd cipherFile plainTextFile w =
        (Ok (formatWords ?ws),
         w\<lparr>files := (files w)(file_of e plainTextFile \<mapsto> Join ?ws '' '', file_of e cipherFile \<mapsto> encrypted),
           trace := trace w @ [Stat cipherFile, Stat plainTextFile,
              WriteFile plainTextFile (Join ?ws '' ''), ReadFile plainTextFile,
              WriteFile cipherFile encrypted]\<rparr>)"
      unfolding New_generation_path [OF h(3,1,2)] using h(4-7) by (simp add: io_defs)
    have "?ws \<noteq> []" using length_generate256BitsKey_words [OF h(3), of rnd] by auto
    then have ne: "formatWords ?ws \<noteq> []" by (rule formatWords_nonempty)
    have again: "cipherFile \<noteq> plainTextFile \<longrightarrow>
        fst (New e rnd' cipherFile plainTextFile (snd (New e rnd cipherFile plainTextFile w)))
          = Error (ConflictingKeyFiles plainTextFile)"
      using h(3) by (simp add: first) (simp add: New_def io_defs)
    show "fst (New e rnd cipherFile plainTextFile w) = Ok (formatWords ?ws)
          \<and> formatWords ?ws \<noteq> []
          \<and> (cipherFile \<noteq> plainTextFile \<longrightarrow>
               fst (New e rnd' cipherFile plainTextFile (snd (New e rnd cipherFile plainTextFile w)))
                 = Error (ConflictingKeyFiles plainTextFile))"
      using first ne again by simp
  qed
  have c: "\<forall>s w'. Get e rnd cipherFile plainTextFile w = (Ok s, w') \<longrightarrow> files w (file_of e plainTextFile) = None"
    by (auto simp: Get_def io_defs split: if_splits option.splits result.splits)
  from a b c show ?thesis by blast
qed

theorem plaintext_only_from_generation_witness:
  "fst (New fake_platform (\<lambda>i. i) ''test_key.dat'' ''test_key.txt'' (disk [] testWordsList))
     = Ok (formatWords testWordsList)
   \<and> fst (New fake_platform (\<lambda>i. i) ''test_key.dat'' ''test_key.txt''
           (snd (New fake_platform (\<lambda>i. i) ''test_key.dat'' ''test_key.txt''
                   (disk [] testWordsList))))
     = Error (ConflictingKeyFiles ''test_key.txt'')"
  using plaintext_only_from_generation [where e = fake_platform and rnd = "\<lambda>i. i"
      and cipherFile = "''test_key.dat''" and plainTextFile = "''test_key.txt''"
      and w = "disk [] testWordsList" and encrypted = "rev (Join testWordsList '' '')"
      and rnd' = "\<lambda>i. i"]
    test_key_encrypts testWordsList_nonempty
  by (simp add: gen_test)

text \<open>
  With only the ciphertext file on disk, \<open>Get\<close> returns the decrypted key to its caller.
\<close>

theorem Get_returns_decrypted_key:
  "files (disk [(''test_key.dat'', ''yek'')] []) ''test_key.dat'' \<noteq> None
   \<and> fst (Get fake_platform (\<lambda>i. i) ''test_key.dat'' ''test_key.txt''
            (disk [(''test_key.dat'', ''yek'')] [])) = Ok ''key''"
  by (simp add: Get_def io_defs decryptData_def)

text \<open>
  Claim C2 (as amended).  With both files present, \<open>Get\<close>, \<open>AccessKey\<close> and, once the
  word list is set, \<open>New\<close> refuse with the conflicting-files error (\<open>AccessKey\<close>: false
  with that message); they have only looked for the two files, and the disk and the
  loaded key are as before.  With an empty word list \<open>New\<close> returns its
  not-initialised error before it looks at the disk.
\<close>

theorem both_present_refused:
  "(files w (file_of e cipherFile) \<noteq> None \<and> files w (file_of e plainTextFile) \<noteq> None \<longrightarrow>
      Get e rnd cipherFile plainTextFile w =
        (Error (ConflictingKeyFiles plainTextFile),
         w\<lparr>trace := trace w @ [Stat cipherFile, Stat plainTextFile]\<rparr>)
      \<and> (wordsList w \<noteq> [] \<longrightarrow>
          New e rnd cipherFile plainTextFile w =
            (Error (ConflictingKeyFiles plainTextFile),
             w\<lparr>trace := trace w @ [Stat cipherFile, Stat plainTextFile]\<rparr>))
      \<and> (wordsList w = [] \<longrightarrow>
          New e rnd cipherFile plainTextFile w = (Error WordsListNotInitialized, w)))
   \<and> (files w (file_of e ''key.dat'') \<noteq> None \<and> files w (file_of e ''key.txt'') \<noteq> None \<longrightarrow>
      AccessKey e rd w =
        (Ok (False, Message (ConflictingKeyFiles ''key.txt'')),
         w\<lparr>trace := trace w @ [Stat ''key.dat'', Stat ''key.txt'']\<rparr>))"
  by (simp add: New_def Get_def AccessKey_def io_defs)

theorem both_present_refused_witness:
  "New fake_platform (\<lambda>i. i) ''key.dat'' ''key.txt''
       (disk [(''key.dat'', ''x''), (''key.txt'', ''y'')] testWordsList)
     = (Error (ConflictingKeyFiles ''key.txt''),
        (disk [(''key.dat'', ''x''), (''key.txt'', ''y'')] testWordsList)
          \<lparr>trace := [Stat ''key.dat'', Stat ''key.txt'']\<rparr>)
   \<and> Get fake_platform (\<lambda>i. i) ''key.dat'' ''key.txt''
       (disk [(''key.dat'', ''x''), (''key.txt'', ''y'')] testWordsList)
     = (Error (ConflictingKeyFiles ''key.txt''),
        (disk [(''key.dat'', ''x''), (''key.txt'', ''y'')] testWordsList)
          \<lparr>trace := [Stat ''key.dat'', Stat ''key.txt'']\<rparr>)
   \<and> AccessKey fake_platform (\<lambda>i. None)
       (disk [(''key.dat'', ''x''), (''key.txt'', ''y'')] testWordsList)
     = (Ok (False, Message (ConflictingKeyFiles ''key.txt'')),
        (disk [(''key.dat'', ''x''), (''key.txt'', ''y'')] testWordsList)
          \<lparr>trace := [Stat ''key.dat'', Stat ''key.txt'']\<rparr>)"
  using both_present_refused [where w = "disk [(''key.dat'', ''x''), (''key.txt'', ''y'')] testWordsList"
      and cipherFile = "''key.dat''" and plainTextFile = "''key.txt''" and e = fake_platform
      and rnd = "\<lambda>i. i" and rd = "\<lambda>i. None"]
    testWordsList_nonempty
  by simp

text \<open>
  Both files present and the word list not set: \<open>New\<close> reports the word list, not the
  conflict.
\<close>

theorem New_before_wordsList_is_set:
  "files (disk [(''key.dat'', ''x''), (''key.txt'', ''y'')] []) ''key.dat'' \<noteq> None
   \<and> files (disk [(''key.dat'', ''x''), (''key.txt'', ''y'')] []) ''key.txt'' \<noteq> None
   \<and> fst (New fake_platform (\<lambda>i. i) ''key.dat'' ''key.txt''
            (disk [(''key.dat'', ''x''), (''key.txt'', ''y'')] []))
       = Error WordsListNotInitialized"
  by (simp add: New_def)

text \<open>
  Claim C3 (as amended).  With only the ciphertext file present and readable: when
  \<open>decryptData\<close> succeeds, \<open>New\<close> (word list set) stores the key in \<open>secureKey\<close> and
  returns the empty string, while \<open>Get\<close>, which keeps no buffer, returns the key itself;
  when \<open>decryptData\<close> reports the platform's rejection, both return the crypto error,
  and the disk and \<open>secureKey\<close> are as before (the trace records the look-ups and the
  read).
\<close>

theorem cipher_only_load:
  assumes "files w (file_of e cipherFile) = Some blob" and "files w (file_of e plainTextFile) = None"
    and "\<not> read_error e cipherFile"
  shows "(decryptData e blob = Ok key \<longrightarrow>
            (wordsList w \<noteq> [] \<longrightarrow>
               New e rnd cipherFile plainTextFile w =
                 (Ok [], w\<lparr>secureKey := Some key,
                          trace := trace w @ [Stat cipherFile, Stat plainTextFile, ReadFile cipherFile]\<rparr>))
            \<and> Get e rnd cipherFile plainTextFile w =
                 (Ok key, w\<lparr>trace := trace w @ [Stat cipherFile, Stat plainTextFile, ReadFile cipherFile]\<rparr>))
       \<and> (decryptData e blob = Error DataProtectionFailed \<longrightarrow>
            (wordsList w \<noteq> [] \<longrightarrow>
               New e rnd cipherFile plainTextFile w =
                 (Error (PlatformCryptoError ''key.dat''),
                  w\<lparr>trace := trace w @ [Stat cipherFile, Stat plainTextFile, ReadFile cipherFile]\<rparr>))
            \<and> Get e rnd cipherFile plainTextFile w =
                 (Error (PlatformCryptoError cipherFile),
                  w\<lparr>trace := trace w @ [Stat cipherFile, Stat plainTextFile, ReadFile cipherFile]\<rparr>))"
  using assms by (simp add: New_def Get_def io_defs)

theorem cipher_only_load_witness:
  "New fake_platform (\<lambda>i. i) ''key.dat'' ''key.txt'' (disk [(''key.dat'', ''terces'')] testWordsList)
     = (Ok [], (disk [(''key.dat'', ''terces'')] testWordsList)
                 \<lparr>secureKey := Some ''secret'',
                  trace := [Stat ''key.dat'', Stat ''key.txt'', ReadFile ''key.dat'']\<rparr>)
   \<and> New (fake_platform\<lparr>CryptUnprotectData := (\<lambda>d. None)\<rparr>) (\<lambda>i. i) ''key.dat'' ''key.txt''
         (disk [(''key.dat'', ''terces'')] testWordsList)
     = (Error (PlatformCryptoError ''key.dat''),
        (disk [(''key.dat'', ''terces'')] testWordsList)
          \<lparr>trace := [Stat ''key.dat'', Stat ''key.txt'', ReadFile ''key.dat'']\<rparr>)"
proof -
  have ok: "decryptData fake_platform ''terces'' = Ok ''secret''"
    by (simp add: decryptData_def)
  have rejected: "decryptData (fake_platform\<lparr>CryptUnprotectData := (\<lambda>d. None)\<rparr>) ''terces''
      = Error DataProtectionFailed"
    by (simp add: decryptData_def)
  show ?thesis
    using cipher_only_load [where w = "disk [(''key.dat'', ''terces'')] testWordsList"
        and cipherFile = "''key.dat''" and blob = "''terces''" and plainTextFile = "''key.txt''"
        and e = fake_platform and key = "''secret''" and rnd = "\<lambda>i. i"]
      cipher_only_load [where w = "disk [(''key.dat'', ''terces'')] testWordsList"
        and cipherFile = "''key.dat''" and blob = "''terces''" and plainTextFile = "''key.txt''"
        and e = "fake_platform\<lparr>CryptUnprotectData := (\<lambda>d. None)\<rparr>"
        and key = "''secret''" and rnd = "\<lambda>i. i"]
      ok rejected testWordsList_nonempty
    by simp
qed

text \<open>\<open>Get\<close> on a ciphertext-only disk: the caller receives the decrypted key.\<close>

theorem Get_hands_out_the_key:
  "files (disk [(''key.dat'', ''terces'')] []) ''key.txt'' = None
   \<and> Get fake_platform (\<lambda>i. i) ''key.dat'' ''key.txt'' (disk [(''key.dat'', ''terces'')] [])
     = (Ok ''secret'',
        (disk [(''key.dat'', ''terces'')] [])
          \<lparr>trace := [Stat ''key.dat'', Stat ''key.txt'', ReadFile ''key.dat'']\<rparr>)"
  by (simp add: Get_def io_defs decryptData_def)

text \<open>
  Claim C4.  With only the plaintext file present, readable and valid, and the
  encryption and the write succeeding, the ciphertext file is written and the plaintext
  file is left as it is.  \<open>Get\<close> then returns the error that tells the caller to remove
  the plaintext file, and \<open>AccessKey\<close> returns false with its "remove key.txt" message;
  \<open>New\<close> returns the empty string and no error, as it does after loading a key.
\<close>

theorem plaintext_only_migration:
  assumes "files w (file_of e cipherFile) = None" and "files w (file_of e plainTextFile) = Some content"
    and "\<not> read_error e plainTextFile" and "\<not> write_error e cipherFile"
  shows "(wordsList w \<noteq> [] \<and> length (Fields content) = 24
            \<and> set (Fields content) \<subseteq> set (wordsList w)
            \<and> encryptData e (Join (Fields content) '' '') = Ok encrypted \<longrightarrow>
          New e rnd cipherFile plainTextFile w =
            (Ok [], w\<lparr>files := (files w)(file_of e cipherFile \<mapsto> encrypted),
                     trace := trace w @ [Stat cipherFile, Stat plainTextFile,
                                ReadFile plainTextFile, WriteFile cipherFile encrypted]\<rparr>))
       \<and> (length content = 32 \<and> encryptData e content = Ok encrypted \<longrightarrow>
          Get e rnd cipherFile plainTextFile w =
            (Error (ConflictingKeyFiles plainTextFile),
             w\<lparr>files := (files w)(file_of e cipherFile \<mapsto> encrypted),
               trace := trace w @ [Stat cipherFile, Stat plainTextFile,
                          ReadFile plainTextFile, WriteFile cipherFile encrypted]\<rparr>))
       \<and> (cipherFile = ''key.dat'' \<and> plainTextFile = ''key.txt''
            \<and> encryptData e content = Ok encrypted \<longrightarrow>
          AccessKey e rd w =
            (Ok (False, Message PlaintextStillPresent),
             w\<lparr>files := (files w)(file_of e ''key.dat'' \<mapsto> encrypted),
               trace := trace w @ [Stat ''key.dat'', Stat ''key.txt'',
                          ReadFile ''key.txt'', WriteFile ''key.dat'' encrypted]\<rparr>))"
  using assms
  by (auto simp: New_def Get_def AccessKey_def io_defs validateWords_iff)

theorem plaintext_only_migration_witness:
  "New fake_platform (\<lambda>i. i) ''test_key.dat'' ''test_key.txt''
       (disk [(''test_key.txt'', Join testWordsList '' '')] testWordsList)
     = (Ok [],
        (disk [(''test_key.txt'', Join testWordsList '' '')] testWordsList)
          \<lparr>files := (map_of [(''test_key.txt'', Join testWordsList '' '')])
                      (''test_key.dat'' \<mapsto> rev (Join testWordsList '' '')),
           trace := [Stat ''test_key.dat'', Stat ''test_key.txt'', ReadFile ''test_key.txt'',
                     WriteFile ''test_key.dat'' (rev (Join testWordsList '' ''))]\<rparr>)
   \<and> fst (Get fake_platform (\<lambda>i. i) ''key.dat'' ''key.txt''
            (disk [(''key.txt'', ''abcdefghijklmnopqrstuvwxyz012345'')] []))
     = Error (ConflictingKeyFiles ''key.txt'')
   \<and> fst (AccessKey fake_platform (\<lambda>i. None)
            (disk [(''key.txt'', ''abcdefghijklmnopqrstuvwxyz012345'')] []))
     = Ok (False, Message PlaintextStillPresent)"
proof -
  have enc: "encryptData fake_platform ''abcdefghijklmnopqrstuvwxyz012345''
      = Ok ''543210zyxwvutsrqponmlkjihgfedcba''"
    by (simp add: encryptData_def)
  show ?thesis
    using plaintext_only_migration [where
        w = "disk [(''test_key.txt'', Join testWordsList '' '')] testWordsList"
        and cipherFile = "''test_key.dat''" and plainTextFile = "''test_key.txt''"
        and content = "Join testWordsList '' ''" and e = fake_platform
        and encrypted = "rev (Join testWordsList '' '')" and rnd = "\<lambda>i. i"
        and rd = "\<lambda>i. None"]
      plaintext_only_migration [where
        w = "disk [(''key.txt'', ''abcdefghijklmnopqrstuvwxyz012345'')] []"
        and cipherFile = "''key.dat''" and plainTextFile = "''key.txt''"
        and content = "''abcdefghijklmnopqrstuvwxyz012345''" and e = fake_platform
        and encrypted = "''543210zyxwvutsrqponmlkjihgfedcba''" and rnd = "\<lambda>i. i"
        and rd = "\<lambda>i. None"]
      test_key_encrypts testWordsList_nonempty length_testWordsList enc
    by (simp add: Fields_test_key)
qed

text \<open>
  Two further outcomes of the same paths.  A ciphertext file of length zero makes
  \<open>decryptData\<close> index an empty slice.  When the encryption of a valid plaintext file
  fails, the error \<open>New\<close> returns quotes the content of the plaintext file.
\<close>

lemma empty_cipher_file_panics:
  assumes "files w (file_of e cipherFile) = Some []" and "files w (file_of e plainTextFile) = None"
    and "\<not> read_error e cipherFile"
  shows "fst (Get e rnd cipherFile plainTextFile w) = Crash IndexOutOfRange"
    and "wordsList w \<noteq> [] \<Longrightarrow> fst (New e rnd cipherFile plainTextFile w) = Crash IndexOutOfRange"
  using assms by (simp_all add: New_def Get_def io_defs decryptData_def)

lemma encryption_failure_quotes_plaintext:
  assumes "wordsList w \<noteq> []" and "files w (file_of e cipherFile) = None"
    and "files w (file_of e plainTextFile) = Some content" and "\<not> read_error e plainTextFile"
    and "length (Fields content) = 24" and "set (Fields content) \<subseteq> set (wordsList w)"
    and "encryptData e (Join (Fields content) '' '') = Error err"
  shows "fst (New e rnd cipherFile plainTextFile w) = Error (PlatformCryptoError content)"
  using assms by (simp add: New_def io_defs validateWords_iff)

subsection \<open>Retrieval and destruction of the loaded key\<close>

text \<open>
  Claim C5.  \<open>GetKey\<close> with no key loaded: the \<open>GetKey\<close> of \<open>winkeysafe.go\<close> returns
  the "key not loaded" error and no bytes; the \<open>GetKey\<close> of the 24-word package panics
  on the nil buffer before it reaches its own nil test.
\<close>

theorem GetKey_not_loaded:
  "GetKey_words (w\<lparr>secureKey := None\<rparr>) = (Crash NilPointerDereference, w\<lparr>secureKey := None\<rparr>)
   \<and> GetKey (w\<lparr>secureKey := None\<rparr>) = (Error KeyNotLoaded, w\<lparr>secureKey := None\<rparr>)"
  by (simp add: GetKey_words_def GetKey_def)

subsection \<open>Order of the writes when a key is generated\<close>

text \<open>
  Claim C6 (as amended).  On the empty disk, \<open>New\<close> (word list set) and \<open>Get\<close> write the
  plaintext file before the ciphertext file and return the key only after both writes
  have succeeded; when the writes, the encryption and (in \<open>New\<close>) the read-back succeed,
  they do return it, with both files written.  When the plaintext write has succeeded
  and the call does not return the key, the disk is not empty; if the two paths lead to
  distinct files, the plaintext file holds the generated key, and the ciphertext file
  is absent unless the failing \<open>os.WriteFile\<close> had already created it, in which case it
  holds a prefix of the ciphertext and both files are present.  When the plaintext write
  fails, the ciphertext file is never written.  The path never panics.
\<close>

theorem generation_writes_plaintext_first:
  assumes "files w (file_of e cipherFile) = None" and "files w (file_of e plainTextFile) = None"
  shows "(wordsList w \<noteq> [] \<longrightarrow>
          (case New e rnd cipherFile plainTextFile w of (r, w') \<Rightarrow>
            (let words = generate256BitsKey_words (wordsList w) rnd; key = Join words '' '';
                 fc = file_of e cipherFile; fp = file_of e plainTextFile in
             (\<not> write_error e plainTextFile \<and> \<not> read_error e plainTextFile
                \<and> encryptData e key = Ok encrypted \<and> \<not> write_error e cipherFile \<longrightarrow>
                r = Ok (formatWords words)
                \<and> files w' = (files w)(fp \<mapsto> key, fc \<mapsto> encrypted)
                \<and> trace w' = trace w @ [Stat cipherFile, Stat plainTextFile,
                      WriteFile plainTextFile key, ReadFile plainTextFile,
                      WriteFile cipherFile encrypted])
           \<and> (\<forall>s. r = Ok s \<longrightarrow>
                s = formatWords words
                \<and> (\<exists>enc. trace w' = trace w @ [Stat cipherFile, Stat plainTextFile,
                        WriteFile plainTextFile key, ReadFile plainTextFile, WriteFile cipherFile enc]
                     \<and> files w' = (files w)(fp \<mapsto> key, fc \<mapsto> enc)))
           \<and> (\<not> write_error e plainTextFile \<and> (\<forall>s. r \<noteq> Ok s) \<longrightarrow>
                files w' fp \<noteq> None
                \<and> (fc \<noteq> fp \<longrightarrow>
                     files w' fp = Some key
                     \<and> (files w' fc = None
                         \<or> (\<exists>n enc. write_error e cipherFile \<and> partial_write e cipherFile = Some n
                               \<and> encryptData e key = Ok enc \<and> files w' fc = Some (take n enc)))))
           \<and> (write_error e plainTextFile \<longrightarrow>
                r = Error (WriteFailed plainTextFile)
                \<and> trace w' = trace w @ [Stat cipherFile, Stat plainTextFile, WriteFile plainTextFile key]
                \<and> files w' = (case partial_write e plainTextFile of
                                None \<Rightarrow> files w
                              | Some n \<Rightarrow> (files w)(fp \<mapsto> take n key)))
           \<and> (\<forall>c. r \<noteq> Crash c))))
       \<and> (case Get e rnd' cipherFile plainTextFile w of (r, w') \<Rightarrow>
            (let key = generate256BitsKey_sized 32 rnd';
                 fc = file_of e cipherFile; fp = file_of e plainTextFile in
             (\<not> write_error e plainTextFile \<and> encryptData e key = Ok encrypted'
                \<and> \<not> write_error e cipherFile \<longrightarrow>
                r = Ok key
                \<and> files w' = (files w)(fp \<mapsto> key, fc \<mapsto> encrypted')
                \<and> trace w' = trace w @ [Stat cipherFile, Stat plainTextFile,
                      WriteFile plainTextFile key, WriteFile cipherFile encrypted'])
           \<and> (\<forall>s. r = Ok s \<longrightarrow>
                s = key
                \<and> (\<exists>enc. trace w' = trace w @ [Stat cipherFile, Stat plainTextFile,
                        WriteFile plainTextFile key, WriteFile cipherFile enc]
                     \<and> files w' = (files w)(fp \<mapsto> key, fc \<mapsto> enc)))
           \<and> (\<not> write_error e plainTextFile \<and> (\<forall>s. r \<noteq> Ok s) \<longrightarrow>
                files w' fp \<noteq> None
                \<and> (fc \<noteq> fp \<longrightarrow>
                     files w' fp = Some key
                     \<and> (files w' fc = None
                         \<or> (\<exists>n enc. write_error e cipherFile \<and> partial_write e cipherFile = Some n
                               \<and> encryptData e key = Ok enc \<and> files w' fc = Some (take n enc)))))
           \<and> (write_error e plainTextFile \<longrightarrow>
                r = Error (WriteFailed plainTextFile)
                \<and> trace w' = trace w @ [Stat cipherFile, Stat plainTextFile, WriteFile plainTextFile key]
                \<and> files w' = (case partial_write e plainTextFile of
                                None \<Rightarrow> files w
                              | Some n \<Rightarrow> (files w)(fp \<mapsto> take n key)))
           \<and> (\<forall>c. r \<noteq> Crash c)))"
proof -
  obtain r w' where n: "New e rnd cipherFile plainTextFile w = (r, w')"
    by (cases "New e rnd cipherFile plainTextFile w")
  obtain r2 w2 where g: "Get e rnd' cipherFile plainTextFile w = (r2, w2)"
    by (cases "Get e rnd' cipherFile plainTextFile w")
  show ?thesis
    unfolding n g prod.case
    using New_generation_outcome [OF _ assms n, of encrypted]
      Get_generation_outcome [OF assms g, of encrypted']
    by blast
qed

theorem generation_writes_plaintext_first_witness:
  "fst (New fake_platform (\<lambda>i. i) ''test_key.dat'' ''test_key.txt'' (disk [] testWordsList))
     = Ok (formatWords testWordsList)
   \<and> files (snd (New fake_platform (\<lambda>i. i) ''test_key.dat'' ''test_key.txt''
                   (disk [] testWordsList)))
     = [''test_key.txt'' \<mapsto> Join testWordsList '' '',
        ''test_key.dat'' \<mapsto> rev (Join testWordsList '' '')]
   \<and> trace (snd (New fake_platform (\<lambda>i. i) ''test_key.dat'' ''test_key.txt''
                   (disk [] testWordsList)))
     = [Stat ''test_key.dat'', Stat ''test_key.txt'',
        WriteFile ''test_key.txt'' (Join testWordsList '' ''), ReadFile ''test_key.txt'',
        WriteFile ''test_key.dat'' (rev (Join testWordsList '' ''))]
   \<and> fst (Get fake_platform (\<lambda>i. i) ''test_key.dat'' ''test_key.txt'' (disk [] []))
     = Ok (generate256BitsKey_sized 32 (\<lambda>i. i))
   \<and> files (snd (Get fake_platform (\<lambda>i. i) ''test_key.dat'' ''test_key.txt'' (disk [] [])))
     = [''test_key.txt'' \<mapsto> generate256BitsKey_sized 32 (\<lambda>i. i),
        ''test_key.dat'' \<mapsto> rev (generate256BitsKey_sized 32 (\<lambda>i. i))]
   \<and> fst (New (fake_platform\<lparr>write_error := (\<lambda>f. f = ''test_key.dat'')\<rparr>) (\<lambda>i. i)
          ''test_key.dat'' ''test_key.txt'' (disk [] testWordsList))
     = Error (WriteFailed ''test_key.dat'')
   \<and> files (snd (New (fake_platform\<lparr>write_error := (\<lambda>f. f = ''test_key.dat'')\<rparr>) (\<lambda>i. i)
          ''test_key.dat'' ''test_key.txt'' (disk [] testWordsList))) ''test_key.txt''
     = Some (Join testWordsList '' '')
   \<and> files (snd (New (fake_platform\<lparr>write_error := (\<lambda>f. f = ''test_key.dat'')\<rparr>) (\<lambda>i. i)
          ''test_key.dat'' ''test_key.txt'' (disk [] testWordsList))) ''test_key.dat''
     = None"
proof -
  let ?e = "fake_platform\<lparr>write_error := (\<lambda>f. f = ''test_key.dat'')\<rparr>"
  let ?k = "generate256BitsKey_sized 32 (\<lambda>i. i)"
  have wl: "wordsList (disk [] testWordsList) \<noteq> []"
    by (simp add: testWordsList_nonempty)
  have success: "fst (New fake_platform (\<lambda>i. i) ''test_key.dat'' ''test_key.txt''
          (disk [] testWordsList)) = Ok (formatWords testWordsList)
      \<and> files (snd (New fake_platform (\<lambda>i. i) ''test_key.dat'' ''test_key.txt''
          (disk [] testWordsList)))
        = [''test_key.txt'' \<mapsto> Join testWordsList '' '',
           ''test_key.dat'' \<mapsto> rev (Join testWordsList '' '')]
      \<and> trace (snd (New fake_platform (\<lambda>i. i) ''test_key.dat'' ''test_key.txt''
          (disk [] testWordsList)))
        = [Stat ''test_key.dat'', Stat ''test_key.txt'',
           WriteFile ''test_key.txt'' (Join testWordsList '' ''), ReadFile ''test_key.txt'',
           WriteFile ''test_key.dat'' (rev (Join testWordsList '' ''))]"
  proof -
    obtain r w' where n: "New fake_platform (\<lambda>i. i) ''test_key.dat'' ''test_key.txt''
        (disk [] testWordsList) = (r, w')"
      by (cases "New fake_platform (\<lambda>i. i) ''test_key.dat'' ''test_key.txt''
        (disk [] testWordsList)")
    have a: "files (disk [] testWordsList) (file_of fake_platform ''test_key.dat'') = None"
      and b: "files (disk [] testWordsList) (file_of fake_platform ''test_key.txt'') = None"
      by simp_all
    note T = generation_writes_plaintext_first [where rnd = "\<lambda>i. i" and rnd' = "\<lambda>i. i"
        and encrypted = "rev (Join testWordsList '' '')" and encrypted' = "[]",
        OF a b, unfolded n prod.case Let_def]
    from mp [OF conjunct1 [OF mp [OF conjunct1 [OF T] wl]]] test_key_encrypts
    have "r = Ok (formatWords testWordsList)
        \<and> files w' = [''test_key.txt'' \<mapsto> Join testWordsList '' '',
                       ''test_key.dat'' \<mapsto> rev (Join testWordsList '' '')]
        \<and> trace w' = [Stat ''test_key.dat'', Stat ''test_key.txt'',
             WriteFile ''test_key.txt'' (Join testWordsList '' ''), ReadFile ''test_key.txt'',
             WriteFile ''test_key.dat'' (rev (Join testWordsList '' ''))]"
      by (simp add: gen_test)
    then show ?thesis unfolding n by simp
  qed
  have k_ne: "?k \<noteq> []"
    using length_generate256BitsKey_sized [of 32 "\<lambda>i. i"] by auto
  have k: "encryptData fake_platform ?k = Ok (rev ?k)"
    using k_ne by (rule encryptData_fake_platform) (simp add: length_generate256BitsKey_sized)
  have get: "fst (Get fake_platform (\<lambda>i. i) ''test_key.dat'' ''test_key.txt'' (disk [] [])) = Ok ?k
      \<and> files (snd (Get fake_platform (\<lambda>i. i) ''test_key.dat'' ''test_key.txt'' (disk [] [])))
        = [''test_key.txt'' \<mapsto> ?k, ''test_key.dat'' \<mapsto> rev ?k]"
  proof -
    obtain r w' where g: "Get fake_platform (\<lambda>i. i) ''test_key.dat'' ''test_key.txt'' (disk [] [])
        = (r, w')"
      by (cases "Get fake_platform (\<lambda>i. i) ''test_key.dat'' ''test_key.txt'' (disk [] [])")
    have a: "files (disk [] []) (file_of fake_platform ''test_key.dat'') = None"
      and b: "files (disk [] []) (file_of fake_platform ''test_key.txt'') = None"
      by simp_all
    note T = generation_writes_plaintext_first [where rnd = "\<lambda>i. i" and rnd' = "\<lambda>i. i"
        and encrypted = "[]" and encrypted' = "rev ?k", OF a b, unfolded g prod.case Let_def]
    from mp [OF conjunct1 [OF conjunct2 [OF T]]] k
    have "r = Ok ?k \<and> files w' = [''test_key.txt'' \<mapsto> ?k, ''test_key.dat'' \<mapsto> rev ?k]"
      by simp
    then show ?thesis unfolding g by simp
  qed
  have enc: "encryptData ?e (Join testWordsList '' '') = Ok (rev (Join testWordsList '' ''))"
    using test_key_nonempty test_key_length by (simp add: encryptData_reversing)
  have r: "fst (New ?e (\<lambda>i. i) ''test_key.dat'' ''test_key.txt'' (disk [] testWordsList))
      = Error (WriteFailed ''test_key.dat'')"
    using testWordsList_nonempty enc by (simp add: New_def io_defs gen_test)
  have failed: "files (snd (New ?e (\<lambda>i. i) ''test_key.dat'' ''test_key.txt''
          (disk [] testWordsList))) ''test_key.txt'' = Some (Join testWordsList '' '')
      \<and> files (snd (New ?e (\<lambda>i. i) ''test_key.dat'' ''test_key.txt''
          (disk [] testWordsList))) ''test_key.dat'' = None"
  proof -
    obtain r' w' where n: "New ?e (\<lambda>i. i) ''test_key.dat'' ''test_key.txt''
        (disk [] testWordsList) = (r', w')"
      by (cases "New ?e (\<lambda>i. i) ''test_key.dat'' ''test_key.txt'' (disk [] testWordsList)")
    have r': "r' = Error (WriteFailed ''test_key.dat'')" using r unfolding n by simp
    have a: "files (disk [] testWordsList) (file_of ?e ''test_key.dat'') = None"
      and b: "files (disk [] testWordsList) (file_of ?e ''test_key.txt'') = None"
      by simp_all
    note T = generation_writes_plaintext_first [where rnd = "\<lambda>i. i" and rnd' = "\<lambda>i. i"
        and encrypted = "[]" and encrypted' = "[]", OF a b, unfolded n prod.case Let_def]
    from mp [OF conjunct1 [OF conjunct2 [OF conjunct2 [OF mp [OF conjunct1 [OF T] wl]]]]] r'
    have "files w' ''test_key.txt'' = Some (Join testWordsList '' '')
        \<and> files w' ''test_key.dat'' = None"
      by (simp add: gen_test)
    then show ?thesis unfolding n by simp
  qed
  from success get r failed show ?thesis by blast
qed

text \<open>
  A ciphertext write that fails after \<open>os.WriteFile\<close> has created the file: the plaintext
  file holds the key and an empty ciphertext file is on disk as well.
\<close>

theorem failed_cipher_write_leaves_both_files:
  "fst (New (fake_platform\<lparr>write_error := (\<lambda>f. f = ''test_key.dat''),
                            partial_write := (\<lambda>f. Some 0)\<rparr>) (\<lambda>i. i)
          ''test_key.dat'' ''test_key.txt'' (disk [] testWordsList))
     = Error (WriteFailed ''test_key.dat'')
   \<and> files (snd (New (fake_platform\<lparr>write_error := (\<lambda>f. f = ''test_key.dat''),
                                    partial_write := (\<lambda>f. Some 0)\<rparr>) (\<lambda>i. i)
          ''test_key.dat'' ''test_key.txt'' (disk [] testWordsList))) ''test_key.txt''
     = Some (Join testWordsList '' '')
   \<and> files (snd (New (fake_platform\<lparr>write_error := (\<lambda>f. f = ''test_key.dat''),
                                    partial_write := (\<lambda>f. Some 0)\<rparr>) (\<lambda>i. i)
          ''test_key.dat'' ''test_key.txt'' (disk [] testWordsList))) ''test_key.dat''
     = Some []"
proof -
  let ?e = "fake_platform\<lparr>write_error := (\<lambda>f. f = ''test_key.dat''),
                           partial_write := (\<lambda>f. Some 0)\<rparr>"
  have enc: "encryptData ?e (Join testWordsList '' '') = Ok (rev (Join testWordsList '' ''))"
    using test_key_nonempty test_key_length by (simp add: encryptData_reversing)
  show ?thesis
    using testWordsList_nonempty enc by (simp add: New_def io_defs gen_test)
qed

text \<open>
  Two spellings of one file: \<open>Get\<close> returns the key after both writes, and the one file
  holds the ciphertext, which has replaced the plaintext.
\<close>

lemma two_names_one_file:
  "fst (Get (fake_platform\<lparr>file_of := (\<lambda>f. if f = ''./key.dat'' then ''key.dat'' else f)\<rparr>)
          (\<lambda>i. i) ''key.dat'' ''./key.dat'' (disk [] []))
     = Ok (generate256BitsKey_sized 32 (\<lambda>i. i))
   \<and> files (snd (Get (fake_platform\<lparr>file_of := (\<lambda>f. if f = ''./key.dat'' then ''key.dat'' else f)\<rparr>)
          (\<lambda>i. i) ''key.dat'' ''./key.dat'' (disk [] [])))
     = [''key.dat'' \<mapsto> rev (generate256BitsKey_sized 32 (\<lambda>i. i))]"
proof -
  let ?e = "fake_platform\<lparr>file_of := (\<lambda>f. if f = ''./key.dat'' then ''key.dat'' else f)\<rparr>"
  let ?k = "generate256BitsKey_sized 32 (\<lambda>i. i)"
  have "?k \<noteq> []"
    using length_generate256BitsKey_sized [of 32 "\<lambda>i. i"] by auto
  then have enc: "encryptData ?e ?k = Ok (rev ?k)"
    by (simp add: encryptData_reversing length_generate256BitsKey_sized)
  show ?thesis
    using enc by (simp add: Get_def io_defs)
qed

subsection \<open>Validating and formatting the words\<close>

text \<open>
  Claim C7.  When \<open>New\<close> reads the plaintext file (word list set, no ciphertext file):
  if the content does not split into exactly 24 fields, or some field is not in the
  word list, \<open>New\<close> returns the invalid-representation error and changes nothing; if
  the content splits into 24 fields of the word list, it does not return that error.
  \<open>validateWords\<close> accepts exactly the sequences whose words are all in the word list.
\<close>

theorem invalid_representation:
  assumes "wordsList w \<noteq> []" and "files w (file_of e cipherFile) = None"
    and "files w (file_of e plainTextFile) = Some content" and "\<not> read_error e plainTextFile"
  shows "(length (Fields content) \<noteq> 24 \<or> \<not> set (Fields content) \<subseteq> set (wordsList w) \<longrightarrow>
           New e rnd cipherFile plainTextFile w =
             (Error (InvalidRepresentation content),
              w\<lparr>trace := trace w @ [Stat cipherFile, Stat plainTextFile, ReadFile plainTextFile]\<rparr>))
       \<and> (length (Fields content) = 24 \<and> set (Fields content) \<subseteq> set (wordsList w) \<longrightarrow>
           (\<forall>s. fst (New e rnd cipherFile plainTextFile w) \<noteq> Error (InvalidRepresentation s)))
       \<and> (validateWords wl words \<longleftrightarrow> set words \<subseteq> set wl)"
  using assms
  by (auto simp: New_def io_defs validateWords_iff split: result.splits option.splits)

theorem invalid_representation_witness:
  "New fake_platform (\<lambda>i. i) ''test_key.dat'' ''test_key.txt''
       (disk [(''test_key.txt'', ''alpha bravo'')] testWordsList)
     = (Error (InvalidRepresentation ''alpha bravo''),
        (disk [(''test_key.txt'', ''alpha bravo'')] testWordsList)
          \<lparr>trace := [Stat ''test_key.dat'', Stat ''test_key.txt'', ReadFile ''test_key.txt'']\<rparr>)
   \<and> fst (New fake_platform (\<lambda>i. i) ''test_key.dat'' ''test_key.txt''
            (disk [(''test_key.txt'', Join testWordsList '' '')] testWordsList))
     \<noteq> Error (InvalidRepresentation (Join testWordsList '' ''))"
proof -
  have two: "Fields ''alpha bravo'' = [''alpha'', ''bravo'']"
    by (simp add: Fields_def FieldsFunc_def runes_ascii_Cons runes_Nil IsSpace_def)
  show ?thesis
    using invalid_representation [where
        w = "disk [(''test_key.txt'', ''alpha bravo'')] testWordsList"
        and cipherFile = "''test_key.dat''" and plainTextFile = "''test_key.txt''"
        and content = "''alpha bravo''" and e = fake_platform and rnd = "\<lambda>i. i"]
      invalid_representation [where
        w = "disk [(''test_key.txt'', Join testWordsList '' '')] testWordsList"
        and cipherFile = "''test_key.dat''" and plainTextFile = "''test_key.txt''"
        and content = "Join testWordsList '' ''" and e = fake_platform and rnd = "\<lambda>i. i"]
      testWordsList_nonempty length_testWordsList
    by (simp add: two Fields_test_key)
qed

text \<open>
  Claim C8 (as amended).  When every word of the word list is non-empty and contains no
  white space, splitting the formatted output recovers the words: for the 24 words
  \<open>generate256BitsKey\<close> draws, and for any sequence of words of the list.
\<close>

theorem Fields_formatWords_roundtrip:
  assumes "\<forall>word\<in>set wl. word \<noteq> [] \<and> (\<forall>x\<in>set (runes word). \<not> IsSpace (fst x))"
  shows "(wl \<noteq> [] \<longrightarrow>
            length (generate256BitsKey_words wl rnd) = 24
            \<and> Fields (formatWords (generate256BitsKey_words wl rnd)) = generate256BitsKey_words wl rnd)
       \<and> (\<forall>words. set words \<subseteq> set wl \<longrightarrow> Fields (formatWords words) = words)"
proof -
  have all: "\<forall>words. set words \<subseteq> set wl \<longrightarrow> Fields (formatWords words) = words"
  proof (intro allI impI)
    fix words :: "string list"
    assume "set words \<subseteq> set wl"
    then have "\<forall>word\<in>set words. word \<noteq> [] \<and> (\<forall>x\<in>set (runes word). \<not> IsSpace (fst x))"
      using assms by blast
    then show "Fields (formatWords words) = words"
      unfolding formatWords_def by (rule Fields_formatWords_loop)
  qed
  then show ?thesis
    using set_generate256BitsKey_words [of wl rnd] length_generate256BitsKey_words [of wl rnd]
    by simp
qed

theorem Fields_formatWords_roundtrip_witness:
  "length (generate256BitsKey_words testWordsList (\<lambda>i. 7 * i)) = 24
   \<and> Fields (formatWords (generate256BitsKey_words testWordsList (\<lambda>i. 7 * i)))
       = generate256BitsKey_words testWordsList (\<lambda>i. 7 * i)"
  using Fields_formatWords_roundtrip [OF testWordsList_tokens, of "\<lambda>i. 7 * i"]
    testWordsList_nonempty
  by simp

text \<open>
  A word list with the entry "new york": the 24 generated words do not come back from
  the formatted output.
\<close>

theorem word_with_space_breaks_roundtrip:
  "Fields (formatWords (generate256BitsKey_words [''new york''] (\<lambda>i. i)))
     \<noteq> generate256BitsKey_words [''new york''] (\<lambda>i. i)"
proof -
  have "Fields (''new'' @ CHR '' '' # (''york '' @ formatWords_loop 1 (replicate 23 ''new york'')))
        = ''new'' # Fields (''york '' @ formatWords_loop 1 (replicate 23 ''new york''))"
    by (rule Fields_token_then_space) (simp_all add: runes_ascii_Cons runes_Nil IsSpace_def)
  then show ?thesis by (simp add: gen_test2 formatWords_def replicate_24)
qed

subsection \<open>Destroying the key\<close>

text \<open>
  Claim C9.  \<open>DestroyKey\<close> is idempotent and does nothing when no key is loaded; after it
  the \<open>GetKey\<close> of \<open>winkeysafe.go\<close> returns the "key not loaded" error, while the \<open>GetKey\<close>
  that ships with \<open>DestroyKey\<close> panics on the nil buffer.
\<close>

theorem DestroyKey_idempotent:
  "DestroyKey (DestroyKey w) = DestroyKey w
   \<and> DestroyKey (w\<lparr>secureKey := None\<rparr>) = w\<lparr>secureKey := None\<rparr>
   \<and> GetKey_words (DestroyKey w) = (Crash NilPointerDereference, DestroyKey w)
   \<and> GetKey (DestroyKey w) = (Error KeyNotLoaded, DestroyKey w)"
  by (simp add: DestroyKey_def GetKey_words_def GetKey_def)

subsection \<open>The random index and the 32-character key\<close>

lemma secureRandomInt_cases:
  "0 < m \<Longrightarrow> secureRandomInt r m = Error RandomSourceFailed \<and> r = None
     \<or> (\<exists>b. r = Some b \<and> secureRandomInt r m = Ok (uint b mod m) \<and> 0 \<le> uint b mod m \<and> uint b mod m < m)"
  by (cases r) (simp_all add: secureRandomInt_def)

lemma charPool_length: "length charPool = 92"
  by (simp add: charPool_def)

lemma loop_invariant:
  "length key = keyLength \<Longrightarrow> set (take i key) \<subseteq> set charPool \<Longrightarrow>
   generate256BitsKey_loop rd keyLength i key = Ok key' \<Longrightarrow>
   length key' = keyLength \<and> set key' \<subseteq> set charPool"
proof (induction rd keyLength i key rule: generate256BitsKey_loop.induct)
  case (1 rd keyLength i key)
  show ?case
  proof (cases "i < keyLength")
    case False
    with "1.prems" show ?thesis
      by (simp add: generate256BitsKey_loop.simps [of rd keyLength i key])
  next
    case True
    from secureRandomInt_cases [of "int (length charPool)" "rd i"]
    obtain b where b: "rd i = Some b"
      and sr: "secureRandomInt (rd i) (int (length charPool)) = Ok (uint b mod int (length charPool))"
      and lo: "0 \<le> uint b mod int (length charPool)"
      and hi: "uint b mod int (length charPool) < int (length charPool)"
      using "1.prems"(3) True
      by (auto simp: generate256BitsKey_loop.simps [of rd keyLength i key] charPool_length)
    let ?n = "uint b mod int (length charPool)"
    let ?key = "key[i := charPool ! nat ?n]"
    have next_call: "generate256BitsKey_loop rd keyLength (i + 1) ?key = Ok key'"
      using "1.prems"(3) True sr lo hi
      by (simp add: generate256BitsKey_loop.simps [of rd keyLength i key])
    have "nat ?n < length charPool" using lo hi by linarith
    then have mem: "charPool ! nat ?n \<in> set charPool" by simp
    have "take (i + 1) ?key = take i key @ [charPool ! nat ?n]"
      using True "1.prems"(1) by (simp add: take_Suc_conv_app_nth)
    then have inv: "set (take (i + 1) ?key) \<subseteq> set charPool"
      using "1.prems"(2) mem by simp
    have len: "length ?key = keyLength" using "1.prems"(1) by simp
    show ?thesis
      using "1.IH" [OF True sr _ len inv next_call] lo hi by simp
  qed
qed

lemma loop_in_bounds:
  "generate256BitsKey_loop rd keyLength i key \<noteq> Crash IndexOutOfRange"
proof (induction rd keyLength i key rule: generate256BitsKey_loop.induct)
  case (1 rd keyLength i key)
  show ?case
  proof (cases "i < keyLength")
    case False
    then show ?thesis by (simp add: generate256BitsKey_loop.simps [of rd keyLength i key])
  next
    case True
    show ?thesis
    proof (cases "rd i")
      case None
      then show ?thesis using True
        by (simp add: generate256BitsKey_loop.simps [of rd keyLength i key]
            secureRandomInt_def charPool_length)
    next
      case (Some b)
      have sr: "secureRandomInt (rd i) (int (length charPool)) = Ok (uint b mod int (length charPool))"
        using Some by (simp add: secureRandomInt_def charPool_length)
      have lo: "\<not> uint b mod int (length charPool) < 0" by (simp add: charPool_length)
      have hi: "\<not> int (length charPool) \<le> uint b mod int (length charPool)"
        by (simp add: charPool_length)
      from lo hi have guard: "\<not> (uint b mod int (length charPool) < 0
          \<or> int (length charPool) \<le> uint b mod int (length charPool))" by blast
      show ?thesis
        using "1.IH" [OF True sr guard] True sr lo hi
        by (simp add: generate256BitsKey_loop.simps [of rd keyLength i key])
    qed
  qed
qed

lemma loop_returns:
  "(\<forall>j. i \<le> j \<and> j < keyLength \<longrightarrow> rd j \<noteq> None) \<Longrightarrow>
   \<exists>key'. generate256BitsKey_loop rd keyLength i key = Ok key'"
proof (induction rd keyLength i key rule: generate256BitsKey_loop.induct)
  case (1 rd keyLength i key)
  show ?case
  proof (cases "i < keyLength")
    case False
    then show ?thesis by (simp add: generate256BitsKey_loop.simps [of rd keyLength i key])
  next
    case True
    then obtain b where Some: "rd i = Some b" using "1.prems" by auto
    have sr: "secureRandomInt (rd i) (int (length charPool)) = Ok (uint b mod int (length charPool))"
      using Some by (simp add: secureRandomInt_def charPool_length)
    have lo: "\<not> uint b mod int (length charPool) < 0" by (simp add: charPool_length)
    have hi: "\<not> int (length charPool) \<le> uint b mod int (length charPool)"
      by (simp add: charPool_length)
    from lo hi have guard: "\<not> (uint b mod int (length charPool) < 0
        \<or> int (length charPool) \<le> uint b mod int (length charPool))" by blast
    have rest: "\<forall>j. i + 1 \<le> j \<and> j < keyLength \<longrightarrow> rd j \<noteq> None" using "1.prems" by simp
    show ?thesis
      using "1.IH" [OF True sr guard rest] True sr lo hi
      by (simp add: generate256BitsKey_loop.simps [of rd keyLength i key])
  qed
qed

text \<open>
  Claim C10.  For \<open>max > 0\<close> and a successful read, \<open>secureRandomInt\<close> returns the byte
  modulo \<open>max\<close>, which lies in \<open>[0, max)\<close>; for \<open>max \<le> 0\<close> it returns 0 and no error.
  \<open>generate256BitsKey\<close> never indexes \<open>charPool\<close> out of range, every key it returns has
  32 characters of \<open>charPool\<close>, and it returns one whenever the 32 reads succeed.
\<close>

theorem secureRandomInt_total_in_range:
  "(0 < m \<longrightarrow> secureRandomInt (Some b) m = Ok (uint b mod m) \<and> 0 \<le> uint b mod m \<and> uint b mod m < m)
   \<and> (m \<le> 0 \<longrightarrow> secureRandomInt r m = Ok 0)
   \<and> generate256BitsKey rd \<noteq> Crash IndexOutOfRange
   \<and> (\<forall>key. generate256BitsKey rd = Ok key \<longrightarrow> length key = 32 \<and> set key \<subseteq> set charPool)
   \<and> ((\<forall>i<32. rd i \<noteq> None) \<longrightarrow> (\<exists>key. generate256BitsKey rd = Ok key))"
proof -
  have a: "0 < m \<longrightarrow> secureRandomInt (Some b) m = Ok (uint b mod m) \<and> 0 \<le> uint b mod m \<and> uint b mod m < m"
    by (simp add: secureRandomInt_def)
  have b: "m \<le> 0 \<longrightarrow> secureRandomInt r m = Ok 0"
    by (simp add: secureRandomInt_def)
  have c: "generate256BitsKey rd \<noteq> Crash IndexOutOfRange"
    unfolding generate256BitsKey_def by (rule loop_in_bounds)
  have d: "\<forall>key. generate256BitsKey rd = Ok key \<longrightarrow> length key = 32 \<and> set key \<subseteq> set charPool"
    unfolding generate256BitsKey_def using loop_invariant [of "replicate 32 (CHR 0x00)" 32 0 rd]
    by simp
  have e: "(\<forall>i<32. rd i \<noteq> None) \<longrightarrow> (\<exists>key. generate256BitsKey rd = Ok key)"
    unfolding generate256BitsKey_def using loop_returns [of 0 32 rd] by simp
  from a b c d e show ?thesis by blast
qed

theorem secureRandomInt_total_in_range_witness:
  "secureRandomInt (Some 200) 92 = Ok 16
   \<and> secureRandomInt None (- 3) = Ok 0
   \<and> (\<exists>key. generate256BitsKey (\<lambda>i. Some (of_nat (37 * i))) = Ok key
          \<and> length key = 32 \<and> set key \<subseteq> set charPool)"
proof -
  have "secureRandomInt (Some 200) 92 = Ok 16"
    using secureRandomInt_total_in_range [of 92 200 None "\<lambda>i. None"] by simp
  moreover have "secureRandomInt None (- 3) = Ok 0"
    using secureRandomInt_total_in_range [of "- 3" 0 None "\<lambda>i. None"] by simp
  moreover have "\<exists>key. generate256BitsKey (\<lambda>i. Some (of_nat (37 * i))) = Ok key
      \<and> length key = 32 \<and> set key \<subseteq> set charPool"
    using secureRandomInt_total_in_range [of 1 0 None "\<lambda>i. Some (of_nat (37 * i))"] by blast
  ultimately show ?thesis by blast
qed

end
